theory Spec2Isabelle
  imports Main "HOL-Library.AList" "HOL-Library.Word" "HOL-Library.Monad_Syntax"
begin

section \<open>Errors\<close>

text \<open>
  Every error value the handler can return. \<open>URLParseError\<close> stands for an error of
  \<open>url.Parse\<close>, \<open>CouldNotDeterminePR\<close> and \<open>ErrorParsingPRNumber\<close> are the two
  \<open>fmt.Errorf\<close> of \<open>NewGitHubHandler\<close> (with the value they print), \<open>PathError\<close> an
  error of \<open>os.MkdirAll\<close>, \<open>os.Create\<close> or \<open>os.Open\<close> at a path, \<open>DecodeError\<close> an error of
  the JSON decoder, \<open>ProviderError\<close> an error returned by a call of the GitHub client.
\<close>

datatype error =
    URLParseError string
  | CouldNotDeterminePR string
  | ErrorParsingPRNumber string
  | PathError string
  | DecodeError string
  | ProviderError string

section \<open>Library functions used by the handler\<close>

subsection \<open>strings.Split with a one-byte separator\<close>

text \<open>
  \<open>strings.Split(s, "/")\<close>: the pieces between the separators, so the empty string
  gives one empty piece and a leading separator gives an empty first piece.
\<close>

fun Split :: "char \<Rightarrow> string \<Rightarrow> string list" where
  "Split sep [] = [[]]"
| "Split sep (c # cs) =
     (if c = sep then [] # Split sep cs
      else (case Split sep cs of
              [] \<Rightarrow> [[c]]
            | p # ps \<Rightarrow> (c # p) # ps))"

subsection \<open>strconv.Atoi and the decimal form of an integer\<close>

definition isDigit :: "char \<Rightarrow> bool" where
  "isDigit c = (48 \<le> (of_char c :: nat) \<and> (of_char c :: nat) \<le> 57)"

definition digitsVal :: "string \<Rightarrow> nat" where
  "digitsVal ds = foldl (\<lambda>n c. 10 * n + (of_char c - 48)) 0 ds"

text \<open>
  \<open>strconv.Atoi\<close> on a 64-bit platform: an optional sign, then at least one decimal
  digit and nothing else, and a value that fits \<open>int\<close>. Its \<open>*NumError\<close> (syntax or
  range) is \<open>None\<close>: the caller prints the input, never the error.
\<close>

definition Atoi :: "string \<Rightarrow> int option" where
  "Atoi s =
     (let neg = (s \<noteq> [] \<and> hd s = CHR ''-'');
          ds = (if s \<noteq> [] \<and> (hd s = CHR ''-'' \<or> hd s = CHR ''+'') then tl s else s)
      in if ds = [] \<or> \<not> list_all isDigit ds then None
         else let n = int (digitsVal ds)
              in if neg then (if n > 2 ^ 63 then None else Some (- n))
                 else (if n \<ge> 2 ^ 63 then None else Some n))"

text \<open>The verb \<open>%d\<close> of \<open>fmt.Sprintf\<close>: decimal digits, with a minus sign below zero.\<close>

fun natDigits :: "nat \<Rightarrow> string" where
  "natDigits n =
     (if n < 10 then [char_of (48 + n)]
      else natDigits (n div 10) @ [char_of (48 + n mod 10)])"

declare natDigits.simps [simp del]

definition formatInt :: "int \<Rightarrow> string" where
  "formatInt i = (if i < 0 then CHR ''-'' # natDigits (nat (- i)) else natDigits (nat i))"

subsection \<open>url.Parse\<close>

record URL =
  Scheme :: string
  Opaque :: string
  Host :: string
  Path :: string
  RawQuery :: string
  Fragment :: string

definition isLetter :: "char \<Rightarrow> bool" where
  "isLetter c = ((97 \<le> (of_char c :: nat) \<and> (of_char c :: nat) \<le> 122)
               \<or> (65 \<le> (of_char c :: nat) \<and> (of_char c :: nat) \<le> 90))"

definition toLower :: "char \<Rightarrow> char" where
  "toLower c = (if 65 \<le> (of_char c :: nat) \<and> (of_char c :: nat) \<le> 90
                then char_of ((of_char c :: nat) + 32) else c)"

datatype scheme_scan = NoScheme | MissingScheme | ColonAt nat

text \<open>The loop of \<open>getScheme\<close>: \<open>i\<close> is the index of the byte being read.\<close>

fun scanScheme :: "nat \<Rightarrow> string \<Rightarrow> scheme_scan" where
  "scanScheme i [] = NoScheme"
| "scanScheme i (c # cs) =
     (if isLetter c then scanScheme (Suc i) cs
      else if isDigit c \<or> c = CHR ''+'' \<or> c = CHR ''-'' \<or> c = CHR ''.''
           then (if i = 0 then NoScheme else scanScheme (Suc i) cs)
      else if c = CHR '':'' then (if i = 0 then MissingScheme else ColonAt i)
      else NoScheme)"

definition isHex :: "char \<Rightarrow> bool" where
  "isHex c = (isDigit c
            \<or> (97 \<le> (of_char c :: nat) \<and> (of_char c :: nat) \<le> 102)
            \<or> (65 \<le> (of_char c :: nat) \<and> (of_char c :: nat) \<le> 70))"

definition unhex :: "char \<Rightarrow> nat" where
  "unhex c = (if isDigit c then of_char c - 48
              else if 97 \<le> (of_char c :: nat) then of_char c - 97 + 10
              else of_char c - 65 + 10)"

text \<open>\<open>unescape\<close> in path mode: \<open>%XX\<close> is one byte, any other \<open>%\<close> is an error.\<close>

fun unescape :: "string \<Rightarrow> string option" where
  "unescape [] = Some []"
| "unescape (c # cs) =
     (if c = CHR ''%'' then
        (case cs of
           a # b # r \<Rightarrow>
             (if isHex a \<and> isHex b
              then map_option ((#) (char_of (16 * unhex a + unhex b))) (unescape r)
              else None)
         | _ \<Rightarrow> None)
      else map_option ((#) c) (unescape cs))"

text \<open>
  \<open>url.Parse\<close>, as far as the path is concerned: the fragment after \<open>#\<close> and the query
  after \<open>?\<close> are cut off, a scheme \<open>letters:\<close> is read and lower-cased, a rest that does
  not start with a slash is opaque (with a scheme) or must have no colon in its first
  segment, an authority \<open>//host\<close> runs to the next slash, and what is left is the path,
  unescaped. The syntax of the authority (user, port, brackets) is not checked here, and
  the query and the fragment are kept as they are written.
\<close>

definition url_Parse :: "string \<Rightarrow> error + URL" where
  "url_Parse rawURL =
     (let u = takeWhile (\<lambda>c. c \<noteq> CHR ''#'') rawURL;
          frag = drop (Suc (length u)) rawURL
      in if list_ex (\<lambda>c. (of_char c :: nat) < 32 \<or> (of_char c :: nat) = 127) u
         then Inl (URLParseError rawURL)
         else if u = ''*''
         then Inr \<lparr>Scheme = [], Opaque = [], Host = [], Path = ''*'',
                   RawQuery = [], Fragment = frag\<rparr>
         else
           (case scanScheme 0 u of
              MissingScheme \<Rightarrow> Inl (URLParseError rawURL)
            | sc \<Rightarrow>
               (let scheme = (case sc of ColonAt i \<Rightarrow> map toLower (take i u) | _ \<Rightarrow> []);
                    rest0 = (case sc of ColonAt i \<Rightarrow> drop (Suc i) u | _ \<Rightarrow> u);
                    rest1 = takeWhile (\<lambda>c. c \<noteq> CHR ''?'') rest0;
                    query = drop (Suc (length rest1)) rest0
                in if rest1 = [] \<or> hd rest1 \<noteq> CHR ''/''
                   then (if scheme \<noteq> []
                         then Inr \<lparr>Scheme = scheme, Opaque = rest1, Host = [], Path = [],
                                   RawQuery = query, Fragment = frag\<rparr>
                         else if CHR '':'' \<in> set (takeWhile (\<lambda>c. c \<noteq> CHR ''/'') rest1)
                         then Inl (URLParseError rawURL)
                         else (case unescape rest1 of
                                 None \<Rightarrow> Inl (URLParseError rawURL)
                               | Some p \<Rightarrow>
                                   Inr \<lparr>Scheme = scheme, Opaque = [], Host = [], Path = p,
                                        RawQuery = query, Fragment = frag\<rparr>))
                   else
                     (let hasAuth = ((scheme \<noteq> [] \<or> take 3 rest1 \<noteq> ''///'')
                                     \<and> take 2 rest1 = ''//'');
                          auth = (if hasAuth
                                  then takeWhile (\<lambda>c. c \<noteq> CHR ''/'') (drop 2 rest1) else []);
                          rest2 = (if hasAuth then drop (2 + length auth) rest1 else rest1)
                      in (case unescape rest2 of
                            None \<Rightarrow> Inl (URLParseError rawURL)
                          | Some p \<Rightarrow>
                              Inr \<lparr>Scheme = scheme, Opaque = [], Host = auth, Path = p,
                                   RawQuery = query, Fragment = frag\<rparr>)))))"

section \<open>The handler and its construction\<close>

text \<open>
  \<open>GitHubHandler\<close>: the owner, the repository and the number of the pull request. The
  embedded client is the provider of the sections below, the logger has no effect on
  any result.
\<close>

record GitHubHandler =
  owner :: string
  repo :: string
  prNum :: int

text \<open>
  \<open>NewGitHubHandler\<close>. The parser of the standard library is the parameter \<open>parse\<close>
  (\<open>url_Parse\<close> is a model of it): the path must split at its slashes into exactly five
  pieces, and the fifth must be an integer for \<open>strconv.Atoi\<close>. The OAuth token read from
  the environment only configures the client.
\<close>

definition NewGitHubHandler :: "(string \<Rightarrow> error + URL) \<Rightarrow> string \<Rightarrow> error + GitHubHandler" where
  "NewGitHubHandler parse rawURL =
     (case parse rawURL of
        Inl err \<Rightarrow> Inl err
      | Inr u \<Rightarrow>
          (let split = Split (CHR ''/'') (Path u)
           in if length split \<noteq> 5 then Inl (CouldNotDeterminePR rawURL)
              else (let pr = split ! 4
                    in case Atoi pr of
                         None \<Rightarrow> Inl (ErrorParsingPRNumber pr)
                       | Some prNumber \<Rightarrow>
                           Inr \<lparr>owner = split ! 1, repo = split ! 2, prNum = prNumber\<rparr>)))"

text \<open>The text after the last slash of a path.\<close>

definition lastSegment :: "string \<Rightarrow> string" where
  "lastSegment p = rev (takeWhile (\<lambda>c. c \<noteq> CHR ''/'') (rev p))"

section \<open>The generic model (main.go)\<close>

type_synonym int64 = "64 word"

text \<open>
  The structs of \<open>main.go\<close>, field by field. A field \<open>F\<close> of struct \<open>S\<close> is \<open>s_F\<close>, because
  several structs share the names \<open>ID\<close>, \<open>Text\<close> and \<open>Raw\<close>. A pointer to a struct is an
  \<open>option\<close>. A slice is a \<open>list option\<close>: \<open>None\<close> is the nil slice, which the JSON encoder
  writes as \<open>null\<close>, and \<open>Some []\<close> the empty slice, written \<open>[]\<close>. The elements of
  \<open>Comments\<close> and \<open>Labels\<close> are pointers in the source; the model holds the structs
  themselves, so a slice with a nil element (on which \<open>Upload\<close> would dereference nil) is
  not a value of the model.
\<close>

record GitReference =
  ref_Repo :: string
  ref_Branch :: string
  ref_SHA :: string

record Comment =
  c_Text :: string
  c_Author :: string
  c_ID :: int64
  c_Raw :: string

record Label =
  l_Text :: string

record PullRequest =
  pr_Type :: string
  pr_ID :: int64
  pr_Head :: "GitReference option"
  pr_Base :: "GitReference option"
  pr_Comments :: "Comment list option"
  pr_Labels :: "Label list option"
  pr_Raw :: string

definition prFile :: string where
  "prFile = ''pr.json''"

text \<open>Ranging over a slice, and its \<open>len\<close>: the nil slice has no element.\<close>

definition elems :: "'a list option \<Rightarrow> 'a list" where
  "elems s = (case s of None \<Rightarrow> [] | Some xs \<Rightarrow> xs)"

section \<open>The payloads of the provider (go-github)\<close>

text \<open>
  The structs of go-github that the handler reads, with the fields it reads. Every field
  is a pointer there, so an \<open>option\<close> here, and every getter accepts a nil receiver and a
  nil field and returns the zero value then.
\<close>

record User =
  u_Login :: "string option"

record Repository =
  r_Name :: "string option"
  r_CloneURL :: "string option"

record PullRequestBranch =
  b_Ref :: "string option"
  b_SHA :: "string option"
  b_Repo :: "Repository option"
  b_User :: "User option"

record ghLabel =
  gl_Name :: "string option"

record ghPullRequest =
  gpr_ID :: "int64 option"
  gpr_HTMLURL :: "string option"
  gpr_Head :: "PullRequestBranch option"
  gpr_Base :: "PullRequestBranch option"
  gpr_Labels :: "ghLabel list"

record IssueComment =
  ic_ID :: "int64 option"
  ic_Body :: "string option"
  ic_User :: "User option"

definition str0 :: "string option \<Rightarrow> string" where
  "str0 s = (case s of None \<Rightarrow> [] | Some x \<Rightarrow> x)"

definition GetLogin :: "User option \<Rightarrow> string" where
  "GetLogin u = (case u of None \<Rightarrow> [] | Some x \<Rightarrow> str0 (u_Login x))"

definition GetCloneURL :: "Repository option \<Rightarrow> string" where
  "GetCloneURL r = (case r of None \<Rightarrow> [] | Some x \<Rightarrow> str0 (r_CloneURL x))"

definition GetRepoName :: "Repository option \<Rightarrow> string" where
  "GetRepoName r = (case r of None \<Rightarrow> [] | Some x \<Rightarrow> str0 (r_Name x))"

definition GetRepo :: "PullRequestBranch option \<Rightarrow> Repository option" where
  "GetRepo b = (case b of None \<Rightarrow> None | Some x \<Rightarrow> b_Repo x)"

definition GetBranchUser :: "PullRequestBranch option \<Rightarrow> User option" where
  "GetBranchUser b = (case b of None \<Rightarrow> None | Some x \<Rightarrow> b_User x)"

definition GetRef :: "PullRequestBranch option \<Rightarrow> string" where
  "GetRef b = (case b of None \<Rightarrow> [] | Some x \<Rightarrow> str0 (b_Ref x))"

definition GetSHA :: "PullRequestBranch option \<Rightarrow> string" where
  "GetSHA b = (case b of None \<Rightarrow> [] | Some x \<Rightarrow> str0 (b_SHA x))"

definition GetName :: "ghLabel \<Rightarrow> string" where
  "GetName l = str0 (gl_Name l)"

definition GetPRID :: "ghPullRequest \<Rightarrow> int64" where
  "GetPRID p = (case gpr_ID p of None \<Rightarrow> 0 | Some i \<Rightarrow> i)"

definition GetID :: "IssueComment \<Rightarrow> int64" where
  "GetID c = (case ic_ID c of None \<Rightarrow> 0 | Some i \<Rightarrow> i)"

definition GetBody :: "IssueComment \<Rightarrow> string" where
  "GetBody c = str0 (ic_Body c)"

section \<open>JSON (encoding/json)\<close>

text \<open>
  What \<open>writeJSON\<close> stores and \<open>readJSON\<close> reads is a JSON value. Numbers are the integers
  (the structs here have no other number), objects keep the order of their members.
\<close>

datatype json =
    JNull
  | JBool bool
  | JNum int
  | JStr string
  | JArr "json list"
  | JObj "(string \<times> json) list"

subsection \<open>Encoding\<close>

text \<open>
  The structs of \<open>main.go\<close> have no field tags: every field is written, under its Go name
  and in the order of declaration, a nil pointer and a nil slice as \<open>null\<close>.
\<close>

definition enc_slice :: "('a \<Rightarrow> json) \<Rightarrow> 'a list option \<Rightarrow> json" where
  "enc_slice f s = (case s of None \<Rightarrow> JNull | Some xs \<Rightarrow> JArr (map f xs))"

definition enc_GitReference :: "GitReference option \<Rightarrow> json" where
  "enc_GitReference g =
     (case g of
        None \<Rightarrow> JNull
      | Some x \<Rightarrow> JObj [(''Repo'', JStr (ref_Repo x)), (''Branch'', JStr (ref_Branch x)),
                         (''SHA'', JStr (ref_SHA x))])"

definition enc_Comment :: "Comment \<Rightarrow> json" where
  "enc_Comment c =
     JObj [(''Text'', JStr (c_Text c)), (''Author'', JStr (c_Author c)),
           (''ID'', JNum (sint (c_ID c))), (''Raw'', JStr (c_Raw c))]"

definition enc_Label :: "Label \<Rightarrow> json" where
  "enc_Label l = JObj [(''Text'', JStr (l_Text l))]"

definition enc_PullRequest :: "PullRequest \<Rightarrow> json" where
  "enc_PullRequest p =
     JObj [(''Type'', JStr (pr_Type p)), (''ID'', JNum (sint (pr_ID p))),
           (''Head'', enc_GitReference (pr_Head p)), (''Base'', enc_GitReference (pr_Base p)),
           (''Comments'', enc_slice enc_Comment (pr_Comments p)),
           (''Labels'', enc_slice enc_Label (pr_Labels p)),
           (''Raw'', JStr (pr_Raw p))]"

text \<open>
  The structs of go-github tag every field with its JSON name and \<open>omitempty\<close>: a nil
  pointer and an empty slice are left out.
\<close>

definition omitempty :: "string \<Rightarrow> ('a \<Rightarrow> json) \<Rightarrow> 'a option \<Rightarrow> (string \<times> json) list" where
  "omitempty k f v = (case v of None \<Rightarrow> [] | Some x \<Rightarrow> [(k, f x)])"

definition enc_User :: "User \<Rightarrow> json" where
  "enc_User u = JObj (omitempty ''login'' JStr (u_Login u))"

definition enc_Repository :: "Repository \<Rightarrow> json" where
  "enc_Repository r =
     JObj (omitempty ''name'' JStr (r_Name r) @ omitempty ''clone_url'' JStr (r_CloneURL r))"

definition enc_PullRequestBranch :: "PullRequestBranch \<Rightarrow> json" where
  "enc_PullRequestBranch b =
     JObj (omitempty ''ref'' JStr (b_Ref b) @ omitempty ''sha'' JStr (b_SHA b)
           @ omitempty ''repo'' enc_Repository (b_Repo b)
           @ omitempty ''user'' enc_User (b_User b))"

definition enc_ghLabel :: "ghLabel \<Rightarrow> json" where
  "enc_ghLabel l = JObj (omitempty ''name'' JStr (gl_Name l))"

definition enc_ghPullRequest :: "ghPullRequest \<Rightarrow> json" where
  "enc_ghPullRequest p =
     JObj (omitempty ''id'' (\<lambda>i. JNum (sint i)) (gpr_ID p)
           @ omitempty ''html_url'' JStr (gpr_HTMLURL p)
           @ omitempty ''head'' enc_PullRequestBranch (gpr_Head p)
           @ omitempty ''base'' enc_PullRequestBranch (gpr_Base p)
           @ (if gpr_Labels p = [] then []
              else [(''labels'', JArr (map enc_ghLabel (gpr_Labels p)))]))"

definition enc_IssueComment :: "IssueComment \<Rightarrow> json" where
  "enc_IssueComment c =
     JObj (omitempty ''id'' (\<lambda>i. JNum (sint i)) (ic_ID c)
           @ omitempty ''body'' JStr (ic_Body c)
           @ omitempty ''user'' enc_User (ic_User c))"

subsection \<open>Decoding\<close>

text \<open>
  Decoding into a zero value: a member that is absent or \<open>null\<close> leaves the field at its
  zero value, a member of the wrong JSON type is an error (\<open>None\<close>), a member the struct
  does not have is skipped, and of two members with one name the later is kept. Names
  are matched as they are written (the library also accepts another letter case), and a
  \<open>null\<close> inside the array of comments or labels is refused, since the model has no nil
  element.
\<close>

definition member :: "string \<Rightarrow> (string \<times> json) list \<Rightarrow> json" where
  "member k kvs = (case map_of (rev kvs) k of None \<Rightarrow> JNull | Some v \<Rightarrow> v)"

definition dec_string :: "json \<Rightarrow> string option" where
  "dec_string j = (case j of JNull \<Rightarrow> Some [] | JStr s \<Rightarrow> Some s | _ \<Rightarrow> None)"

definition dec_int64 :: "json \<Rightarrow> int64 option" where
  "dec_int64 j =
     (case j of
        JNull \<Rightarrow> Some 0
      | JNum n \<Rightarrow> (if - (2 ^ 63) \<le> n \<and> n < 2 ^ 63 then Some (word_of_int n) else None)
      | _ \<Rightarrow> None)"

definition dec_ptr :: "(json \<Rightarrow> 'a option) \<Rightarrow> json \<Rightarrow> 'a option option" where
  "dec_ptr f j = (case j of JNull \<Rightarrow> Some None | _ \<Rightarrow> map_option Some (f j))"

definition dec_slice :: "(json \<Rightarrow> 'a option) \<Rightarrow> json \<Rightarrow> 'a list option option" where
  "dec_slice f j =
     (case j of
        JNull \<Rightarrow> Some None
      | JArr xs \<Rightarrow> map_option Some (those (map f xs))
      | _ \<Rightarrow> None)"

definition dec_GitReference :: "json \<Rightarrow> GitReference option" where
  "dec_GitReference j =
     (case j of
        JObj kvs \<Rightarrow>
          do { r \<leftarrow> dec_string (member ''Repo'' kvs);
               b \<leftarrow> dec_string (member ''Branch'' kvs);
               s \<leftarrow> dec_string (member ''SHA'' kvs);
               Some \<lparr>ref_Repo = r, ref_Branch = b, ref_SHA = s\<rparr> }
      | _ \<Rightarrow> None)"

definition dec_Comment :: "json \<Rightarrow> Comment option" where
  "dec_Comment j =
     (case j of
        JObj kvs \<Rightarrow>
          do { t \<leftarrow> dec_string (member ''Text'' kvs);
               a \<leftarrow> dec_string (member ''Author'' kvs);
               i \<leftarrow> dec_int64 (member ''ID'' kvs);
               r \<leftarrow> dec_string (member ''Raw'' kvs);
               Some \<lparr>c_Text = t, c_Author = a, c_ID = i, c_Raw = r\<rparr> }
      | _ \<Rightarrow> None)"

definition dec_Label :: "json \<Rightarrow> Label option" where
  "dec_Label j =
     (case j of
        JObj kvs \<Rightarrow> do { t \<leftarrow> dec_string (member ''Text'' kvs); Some \<lparr>l_Text = t\<rparr> }
      | _ \<Rightarrow> None)"

definition dec_PullRequest :: "json \<Rightarrow> PullRequest option" where
  "dec_PullRequest j =
     (case j of
        JNull \<Rightarrow>
          Some \<lparr>pr_Type = [], pr_ID = 0, pr_Head = None, pr_Base = None,
                pr_Comments = None, pr_Labels = None, pr_Raw = []\<rparr>
      | JObj kvs \<Rightarrow>
          do { t \<leftarrow> dec_string (member ''Type'' kvs);
               i \<leftarrow> dec_int64 (member ''ID'' kvs);
               h \<leftarrow> dec_ptr dec_GitReference (member ''Head'' kvs);
               b \<leftarrow> dec_ptr dec_GitReference (member ''Base'' kvs);
               cs \<leftarrow> dec_slice dec_Comment (member ''Comments'' kvs);
               ls \<leftarrow> dec_slice dec_Label (member ''Labels'' kvs);
               r \<leftarrow> dec_string (member ''Raw'' kvs);
               Some \<lparr>pr_Type = t, pr_ID = i, pr_Head = h, pr_Base = b,
                     pr_Comments = cs, pr_Labels = ls, pr_Raw = r\<rparr> }
      | _ \<Rightarrow> None)"









section \<open>The provider and the file system\<close>

text \<open>
  The handler reaches the provider through six methods of the go-github client. The
  model takes them as a record of functions over any provider state \<open>'p\<close>: each takes the
  state, returns the new state, and either fails with an error or succeeds. So a
  theorem about \<open>Download\<close> or \<open>Upload\<close> holds whatever the provider answers, and a call
  may fail at any point.
\<close>

record 'p Client =
  PullRequests_Get :: "string \<Rightarrow> string \<Rightarrow> int \<Rightarrow> 'p \<Rightarrow> (error + ghPullRequest) \<times> 'p"
  Issues_ListComments :: "string \<Rightarrow> string \<Rightarrow> int \<Rightarrow> 'p \<Rightarrow> (error + IssueComment list) \<times> 'p"
  Issues_ReplaceLabelsForIssue :: "string \<Rightarrow> string \<Rightarrow> int \<Rightarrow> string list \<Rightarrow> 'p \<Rightarrow> error option \<times> 'p"
  Issues_DeleteComment :: "string \<Rightarrow> string \<Rightarrow> int64 \<Rightarrow> 'p \<Rightarrow> error option \<times> 'p"
  Issues_EditComment :: "string \<Rightarrow> string \<Rightarrow> int64 \<Rightarrow> IssueComment \<Rightarrow> 'p \<Rightarrow> error option \<times> 'p"
  Issues_CreateComment :: "string \<Rightarrow> string \<Rightarrow> int \<Rightarrow> IssueComment \<Rightarrow> 'p \<Rightarrow> error option \<times> 'p"

text \<open>A call as the handler issues it, with its arguments.\<close>

datatype call =
    GetPullRequest string string int
  | ListComments string string int
  | ReplaceLabels string string int "string list"
  | DeleteComment string string int64
  | EditComment string string int64 IssueComment
  | CreateComment string string int IssueComment

text \<open>
  The world a run acts on: the state of the provider, the files (a path has a JSON
  content or none), the paths at which the operating system refuses to create a
  directory or a file, and the trace of the calls issued so far, each with its outcome
  (\<open>None\<close>: it succeeded).
\<close>

record 'p world =
  provider :: 'p
  files :: "string \<Rightarrow> json option"
  refused :: "string \<Rightarrow> bool"
  trace :: "(call \<times> error option) list"

definition outcome :: "error + 'a \<Rightarrow> error option" where
  "outcome r = (case r of Inl e \<Rightarrow> Some e | Inr _ \<Rightarrow> None)"

definition do_Get :: "'p Client \<Rightarrow> GitHubHandler \<Rightarrow> 'p world \<Rightarrow> (error + ghPullRequest) \<times> 'p world" where
  "do_Get cl h w =
     (case PullRequests_Get cl (owner h) (repo h) (prNum h) (provider w) of
        (r, p) \<Rightarrow>
          (r, w\<lparr>provider := p,
                 trace := trace w @ [(GetPullRequest (owner h) (repo h) (prNum h), outcome r)]\<rparr>))"

definition do_ListComments :: "'p Client \<Rightarrow> GitHubHandler \<Rightarrow> 'p world \<Rightarrow> (error + IssueComment list) \<times> 'p world" where
  "do_ListComments cl h w =
     (case Issues_ListComments cl (owner h) (repo h) (prNum h) (provider w) of
        (r, p) \<Rightarrow>
          (r, w\<lparr>provider := p,
                 trace := trace w @ [(ListComments (owner h) (repo h) (prNum h), outcome r)]\<rparr>))"

definition do_ReplaceLabels :: "'p Client \<Rightarrow> GitHubHandler \<Rightarrow> string list \<Rightarrow> 'p world \<Rightarrow> error option \<times> 'p world" where
  "do_ReplaceLabels cl h names w =
     (case Issues_ReplaceLabelsForIssue cl (owner h) (repo h) (prNum h) names (provider w) of
        (r, p) \<Rightarrow>
          (r, w\<lparr>provider := p,
                 trace := trace w @ [(ReplaceLabels (owner h) (repo h) (prNum h) names, r)]\<rparr>))"

definition do_DeleteComment :: "'p Client \<Rightarrow> GitHubHandler \<Rightarrow> int64 \<Rightarrow> 'p world \<Rightarrow> error option \<times> 'p world" where
  "do_DeleteComment cl h i w =
     (case Issues_DeleteComment cl (owner h) (repo h) i (provider w) of
        (r, p) \<Rightarrow>
          (r, w\<lparr>provider := p,
                 trace := trace w @ [(DeleteComment (owner h) (repo h) i, r)]\<rparr>))"

definition do_EditComment :: "'p Client \<Rightarrow> GitHubHandler \<Rightarrow> int64 \<Rightarrow> IssueComment \<Rightarrow> 'p world \<Rightarrow> error option \<times> 'p world" where
  "do_EditComment cl h i c w =
     (case Issues_EditComment cl (owner h) (repo h) i c (provider w) of
        (r, p) \<Rightarrow>
          (r, w\<lparr>provider := p,
                 trace := trace w @ [(EditComment (owner h) (repo h) i c, r)]\<rparr>))"

definition do_CreateComment :: "'p Client \<Rightarrow> GitHubHandler \<Rightarrow> IssueComment \<Rightarrow> 'p world \<Rightarrow> error option \<times> 'p world" where
  "do_CreateComment cl h c w =
     (case Issues_CreateComment cl (owner h) (repo h) (prNum h) c (provider w) of
        (r, p) \<Rightarrow>
          (r, w\<lparr>provider := p,
                 trace := trace w @ [(CreateComment (owner h) (repo h) (prNum h) c, r)]\<rparr>))"

text \<open>
  \<open>filepath.Join\<close> of a directory and a name. The library also cleans the result
  (doubled slashes, dot segments); the directory is taken as clean here.
\<close>

definition Join :: "string \<Rightarrow> string \<Rightarrow> string" where
  "Join d n = (if d = [] then n else d @ CHR ''/'' # n)"

definition MkdirAll :: "string \<Rightarrow> 'p world \<Rightarrow> error option" where
  "MkdirAll p w = (if refused w p then Some (PathError p) else None)"

text \<open>\<open>writeJSON\<close>: \<open>os.Create\<close> truncates the file, the encoder writes the value.\<close>

definition writeJSON :: "string \<Rightarrow> json \<Rightarrow> 'p world \<Rightarrow> error option \<times> 'p world" where
  "writeJSON p j w =
     (if refused w p then (Some (PathError p), w)
      else (None, w\<lparr>files := (files w)(p \<mapsto> j)\<rparr>))"

text \<open>\<open>readJSON\<close>: \<open>os.Open\<close> fails on a missing file, the decoder on a wrong content.\<close>

definition readJSON :: "string \<Rightarrow> (json \<Rightarrow> 'a option) \<Rightarrow> 'p world \<Rightarrow> error + 'a" where
  "readJSON p dec w =
     (case files w p of
        None \<Rightarrow> Inl (PathError p)
      | Some j \<Rightarrow> (case dec j of None \<Rightarrow> Inl (DecodeError p) | Some v \<Rightarrow> Inr v))"

section \<open>Download\<close>

definition rawCommentPath :: "string \<Rightarrow> IssueComment \<Rightarrow> string" where
  "rawCommentPath commentsPrefix c = Join commentsPrefix (formatInt (sint (GetID c)) @ ''.json'')"

definition toComment :: "string \<Rightarrow> IssueComment \<Rightarrow> Comment" where
  "toComment commentsPrefix c =
     \<lparr>c_Text = GetBody c, c_Author = GetLogin (ic_User c), c_ID = GetID c,
      c_Raw = rawCommentPath commentsPrefix c\<rparr>"

text \<open>
  The loop over the provider's comments: each is written to its raw file and appended
  to the comments of the record; the first failing write ends the download.
\<close>

fun downloadComments :: "string \<Rightarrow> IssueComment list \<Rightarrow> Comment list \<Rightarrow> 'p world \<Rightarrow> (error + Comment list) \<times> 'p world" where
  "downloadComments commentsPrefix [] acc w = (Inr acc, w)"
| "downloadComments commentsPrefix (c # cs) acc w =
     (case writeJSON (rawCommentPath commentsPrefix c) (enc_IssueComment c) w of
        (Some err, w') \<Rightarrow> (Inl err, w')
      | (None, w') \<Rightarrow> downloadComments commentsPrefix cs (acc @ [toComment commentsPrefix c]) w')"

text \<open>The record built from the payload of the pull request, before labels and comments.\<close>

definition toPullRequest :: "string \<Rightarrow> ghPullRequest \<Rightarrow> PullRequest" where
  "toPullRequest rawPR gpr =
     \<lparr>pr_Type = ''github'', pr_ID = GetPRID gpr,
      pr_Head = Some \<lparr>ref_Repo = GetCloneURL (GetRepo (gpr_Head gpr)),
                      ref_Branch = GetRef (gpr_Head gpr), ref_SHA = GetSHA (gpr_Head gpr)\<rparr>,
      pr_Base = Some \<lparr>ref_Repo = GetCloneURL (GetRepo (gpr_Base gpr)),
                      ref_Branch = GetRef (gpr_Base gpr), ref_SHA = GetSHA (gpr_Base gpr)\<rparr>,
      pr_Comments = None, pr_Labels = None, pr_Raw = rawPR\<rparr>"

definition toLabels :: "ghLabel list \<Rightarrow> Label list" where
  "toLabels ls = map (\<lambda>l. \<lparr>l_Text = GetName l\<rparr>) ls"

definition Download :: "'p Client \<Rightarrow> GitHubHandler \<Rightarrow> string \<Rightarrow> 'p world \<Rightarrow> error option \<times> 'p world" where
  "Download cl h path w =
     (let rawPrefix = Join path ''github'' in
      case MkdirAll rawPrefix w of
        Some err \<Rightarrow> (Some err, w)
      | None \<Rightarrow>
     (case do_Get cl h w of
        (Inl err, w1) \<Rightarrow> (Some err, w1)
      | (Inr gpr, w1) \<Rightarrow>
     (let rawPR = Join rawPrefix ''pr.json'' in
      case writeJSON rawPR (enc_ghPullRequest gpr) w1 of
        (Some err, w2) \<Rightarrow> (Some err, w2)
      | (None, w2) \<Rightarrow>
     (let pr = (toPullRequest rawPR gpr)\<lparr>pr_Labels := Some (toLabels (gpr_Labels gpr))\<rparr>;
          commentsPrefix = Join rawPrefix ''comments'' in
      case MkdirAll commentsPrefix w2 of
        Some err \<Rightarrow> (Some err, w2)
      | None \<Rightarrow>
     (case do_ListComments cl h w2 of
        (Inl err, w3) \<Rightarrow> (Some err, w3)
      | (Inr ic, w3) \<Rightarrow>
     (case downloadComments commentsPrefix ic [] w3 of
        (Inl err, w4) \<Rightarrow> (Some err, w4)
      | (Inr cs, w4) \<Rightarrow>
          writeJSON (Join path prFile) (enc_PullRequest (pr\<lparr>pr_Comments := Some cs\<rparr>)) w4))))))"

section \<open>Upload\<close>

text \<open>
  \<open>desiredComments\<close> is a Go map from the ID to the comment: an association list with
  one entry for a key. Storing under a key that is present replaces its comment.
\<close>

definition desiredComments :: "Comment list \<Rightarrow> (int64 \<times> Comment) list" where
  "desiredComments cs = foldl (\<lambda>m c. AList.update (c_ID c) c m) [] cs"

text \<open>
  The body of the loop over the existing comments, up to the removal from the map: a
  delete when the ID is not in the map, an edit with the new body and the existing
  user when the text differs, nothing otherwise.
\<close>

definition newBody :: "Comment \<Rightarrow> IssueComment \<Rightarrow> IssueComment" where
  "newBody dc ec = \<lparr>ic_ID = None, ic_Body = Some (c_Text dc), ic_User = ic_User ec\<rparr>"

definition syncOne :: "'p Client \<Rightarrow> GitHubHandler \<Rightarrow> (int64 \<times> Comment) list \<Rightarrow> IssueComment \<Rightarrow> 'p world \<Rightarrow> error option \<times> 'p world" where
  "syncOne cl h desired ec w =
     (case map_of desired (GetID ec) of
        None \<Rightarrow> do_DeleteComment cl h (GetID ec) w
      | Some dc \<Rightarrow>
          if c_Text dc \<noteq> GetBody ec then do_EditComment cl h (GetID ec) (newBody dc ec) w
          else (None, w))"

fun syncExisting :: "'p Client \<Rightarrow> GitHubHandler \<Rightarrow> IssueComment list \<Rightarrow> (int64 \<times> Comment) list \<Rightarrow> 'p world \<Rightarrow> (error + (int64 \<times> Comment) list) \<times> 'p world" where
  "syncExisting cl h [] desired w = (Inr desired, w)"
| "syncExisting cl h (ec # ecs) desired w =
     (case syncOne cl h desired ec w of
        (Some err, w') \<Rightarrow> (Inl err, w')
      | (None, w') \<Rightarrow> syncExisting cl h ecs (AList.delete (GetID ec) desired) w')"

text \<open>
  Go leaves the order of a \<open>range\<close> over a map open. The order is a parameter of the
  model: the numbers of \<open>seed\<close> pick, one after the other, the next entry among those
  left, so every order of the entries is the order of some seed.
\<close>

fun rangeOrder :: "nat list \<Rightarrow> 'a list \<Rightarrow> 'a list" where
  "rangeOrder seed [] = []"
| "rangeOrder [] (x # xs) = x # xs"
| "rangeOrder (k # ks) (x # xs) =
     (let i = k mod length (x # xs)
      in (x # xs) ! i # rangeOrder ks (take i (x # xs) @ drop (Suc i) (x # xs)))"

definition newComment :: "Comment \<Rightarrow> IssueComment" where
  "newComment dc = \<lparr>ic_ID = None, ic_Body = Some (c_Text dc), ic_User = None\<rparr>"

fun createAll :: "'p Client \<Rightarrow> GitHubHandler \<Rightarrow> Comment list \<Rightarrow> 'p world \<Rightarrow> error option \<times> 'p world" where
  "createAll cl h [] w = (None, w)"
| "createAll cl h (dc # dcs) w =
     (case do_CreateComment cl h (newComment dc) w of
        (Some err, w') \<Rightarrow> (Some err, w')
      | (None, w') \<Rightarrow> createAll cl h dcs w')"

definition Upload :: "'p Client \<Rightarrow> nat list \<Rightarrow> GitHubHandler \<Rightarrow> string \<Rightarrow> 'p world \<Rightarrow> error option \<times> 'p world" where
  "Upload cl seed h path w =
     (case readJSON (Join path prFile) dec_PullRequest w of
        Inl err \<Rightarrow> (Some err, w)
      | Inr pr \<Rightarrow>
     (let labelNames = map l_Text (elems (pr_Labels pr)) in
      case do_ReplaceLabels cl h labelNames w of
        (Some err, w1) \<Rightarrow> (Some err, w1)
      | (None, w1) \<Rightarrow>
     (let desired = desiredComments (elems (pr_Comments pr)) in
      case do_ListComments cl h w1 of
        (Inl err, w2) \<Rightarrow> (Some err, w2)
      | (Inr existingComments, w2) \<Rightarrow>
     (case syncExisting cl h existingComments desired w2 of
        (Inl err, w3) \<Rightarrow> (Some err, w3)
      | (Inr remaining, w3) \<Rightarrow>
          createAll cl h (map snd (rangeOrder seed remaining)) w3))))"

section \<open>The fake server of the tests (fake_github.go)\<close>

type_synonym key = "string \<times> string \<times> int64"

record FakeGitHub =
  fake_pr :: "key \<Rightarrow> ghPullRequest option"
  fake_comments :: "key \<Rightarrow> IssueComment list option"

definition NewFakeGitHub :: FakeGitHub where
  "NewFakeGitHub = \<lparr>fake_pr = Map.empty, fake_comments = Map.empty\<rparr>"

definition AddPullRequest :: "ghPullRequest \<Rightarrow> FakeGitHub \<Rightarrow> FakeGitHub" where
  "AddPullRequest pr g =
     g\<lparr>fake_pr := (fake_pr g)((GetLogin (GetBranchUser (gpr_Base pr)),
                                GetRepoName (GetRepo (gpr_Base pr)), GetPRID pr) \<mapsto> pr)\<rparr>"

definition AddComment :: "string \<Rightarrow> string \<Rightarrow> int64 \<Rightarrow> IssueComment \<Rightarrow> FakeGitHub \<Rightarrow> FakeGitHub" where
  "AddComment ow rp pr comment g =
     g\<lparr>fake_comments := (fake_comments g)((ow, rp, pr) \<mapsto>
         (case fake_comments g (ow, rp, pr) of
            None \<Rightarrow> [comment]
          | Some c \<Rightarrow> c @ [comment]))\<rparr>"

text \<open>
  The four routes, seen from the client: a request is taken to reach the route of its
  owner, repository and number, a status outside 2xx is an error of the client, and a
  payload crosses the wire unchanged.
\<close>

definition getPullRequest :: "string \<Rightarrow> string \<Rightarrow> int \<Rightarrow> FakeGitHub \<Rightarrow> (error + ghPullRequest) \<times> FakeGitHub" where
  "getPullRequest ow rp n g =
     (case fake_pr g (ow, rp, word_of_int n) of
        None \<Rightarrow> (Inl (ProviderError ''404 Not Found''), g)
      | Some pr \<Rightarrow> (Inr pr, g))"

definition getComments :: "string \<Rightarrow> string \<Rightarrow> int \<Rightarrow> FakeGitHub \<Rightarrow> (error + IssueComment list) \<times> FakeGitHub" where
  "getComments ow rp n g =
     (case fake_comments g (ow, rp, word_of_int n) of
        None \<Rightarrow> (Inr [], g)
      | Some comments \<Rightarrow> (Inr comments, g))"

definition createComment :: "string \<Rightarrow> string \<Rightarrow> int \<Rightarrow> IssueComment \<Rightarrow> FakeGitHub \<Rightarrow> error option \<times> FakeGitHub" where
  "createComment ow rp n c g =
     (let comments = (case fake_comments g (ow, rp, word_of_int n) of
                        None \<Rightarrow> [] | Some cs \<Rightarrow> cs)
      in (None, g\<lparr>fake_comments := (fake_comments g)((ow, rp, word_of_int n) \<mapsto>
                     comments @ [c\<lparr>ic_ID := Some (of_nat (length comments + 1))\<rparr>])\<rparr>))"

definition updateLabels :: "string \<Rightarrow> string \<Rightarrow> int \<Rightarrow> string list \<Rightarrow> FakeGitHub \<Rightarrow> error option \<times> FakeGitHub" where
  "updateLabels ow rp n payload g =
     (case fake_pr g (ow, rp, word_of_int n) of
        None \<Rightarrow> (Some (ProviderError ''404 Not Found''), g)
      | Some pr \<Rightarrow>
          (None, g\<lparr>fake_pr := (fake_pr g)((ow, rp, word_of_int n) \<mapsto>
                     pr\<lparr>gpr_Labels := map (\<lambda>l. \<lparr>gl_Name = Some l\<rparr>) payload\<rparr>)\<rparr>))"

text \<open>The client against the fake server: it has no route to edit or delete a comment.\<close>

definition fakeClient :: "FakeGitHub Client" where
  "fakeClient =
     \<lparr>PullRequests_Get = getPullRequest,
      Issues_ListComments = getComments,
      Issues_ReplaceLabelsForIssue = updateLabels,
      Issues_DeleteComment = (\<lambda>ow rp i g. (Some (ProviderError ''404 Not Found''), g)),
      Issues_EditComment = (\<lambda>ow rp i c g. (Some (ProviderError ''404 Not Found''), g)),
      Issues_CreateComment = createComment\<rparr>"

section \<open>A provider with all six operations\<close>


section \<open>Notions used to state the properties\<close>

text \<open>The entries that a run added to the trace, and the calls among them.\<close>

definition added :: "'p world \<Rightarrow> 'p world \<Rightarrow> (call \<times> error option) list" where
  "added w w' = drop (length (trace w)) (trace w')"

text \<open>
  What the loop over the existing comments issues for one of them, when the map is
  \<open>desired\<close>.
\<close>

definition action :: "GitHubHandler \<Rightarrow> (int64 \<times> Comment) list \<Rightarrow> IssueComment \<Rightarrow> call list" where
  "action h desired ec =
     (case map_of desired (GetID ec) of
        None \<Rightarrow> [DeleteComment (owner h) (repo h) (GetID ec)]
      | Some dc \<Rightarrow>
          if c_Text dc \<noteq> GetBody ec
          then [EditComment (owner h) (repo h) (GetID ec) (newBody dc ec)]
          else [])"


text \<open>
  A run stops at its first failing call: every entry but the last succeeded, and if the
  last failed, its error is the result of the run.
\<close>

definition stopsAtFailure :: "(call \<times> error option) list \<Rightarrow> error option \<Rightarrow> bool" where
  "stopsAtFailure new res =
     (list_all (\<lambda>x. snd x = None) (butlast new)
      \<and> (new = [] \<or> snd (last new) = None \<or> snd (last new) = res))"

definition isCommentCall :: "call \<Rightarrow> bool" where
  "isCommentCall c =
     (case c of
        DeleteComment _ _ _ \<Rightarrow> True
      | EditComment _ _ _ _ \<Rightarrow> True
      | CreateComment _ _ _ _ \<Rightarrow> True
      | _ \<Rightarrow> False)"

definition isReplaceLabels :: "call \<Rightarrow> bool" where
  "isReplaceLabels c = (case c of ReplaceLabels _ _ _ _ \<Rightarrow> True | _ \<Rightarrow> False)"

text \<open>
  The calls of the loop over the existing comments, in order, when none fails: the map
  loses the ID of each comment after its turn.
\<close>

fun syncPlan :: "GitHubHandler \<Rightarrow> IssueComment list \<Rightarrow> (int64 \<times> Comment) list \<Rightarrow> call list" where
  "syncPlan h [] desired = []"
| "syncPlan h (ec # ecs) desired =
     action h desired ec @ syncPlan h ecs (AList.delete (GetID ec) desired)"

definition createPlan :: "GitHubHandler \<Rightarrow> Comment list \<Rightarrow> call list" where
  "createPlan h dcs = map (\<lambda>dc. CreateComment (owner h) (repo h) (prNum h) (newComment dc)) dcs"

text \<open>
  A sequence of calls that ran until \<open>res\<close>: all of them succeeded when \<open>res\<close> is no
  error; otherwise the last one failed with that error and all before it succeeded.
\<close>

definition ranUntil :: "(call \<times> error option) list \<Rightarrow> error option \<Rightarrow> bool" where
  "ranUntil new res =
     (case res of
        None \<Rightarrow> list_all (\<lambda>x. snd x = None) new
      | Some e \<Rightarrow> new \<noteq> [] \<and> list_all (\<lambda>x. snd x = None) (butlast new)
                  \<and> snd (last new) = Some e)"

text \<open>The calls that a run added, a call that deletes or edits the comment \<open>i\<close>, a create.\<close>

definition calls :: "'p world \<Rightarrow> 'p world \<Rightarrow> call list" where
  "calls w w' = map fst (added w w')"



section \<open>The fixtures of the tests (github\_test.go)\<close>

definition test_pr :: ghPullRequest where
  "test_pr =
     \<lparr>gpr_ID = Some 1, gpr_HTMLURL = Some ''https://github.com/foo/bar/pull/1'',
      gpr_Head = Some \<lparr>b_Ref = Some ''feature'', b_SHA = Some ''2'',
                       b_Repo = Some \<lparr>r_Name = Some ''bar'',
                                       r_CloneURL = Some ''https://github.com/baz/bar''\<rparr>,
                       b_User = Some \<lparr>u_Login = Some ''baz''\<rparr>\<rparr>,
      gpr_Base = Some \<lparr>b_Ref = Some ''master'', b_SHA = Some ''1'',
                       b_Repo = Some \<lparr>r_Name = Some ''bar'',
                                       r_CloneURL = Some ''https://github.com/foo/bar''\<rparr>,
                       b_User = Some \<lparr>u_Login = Some ''foo''\<rparr>\<rparr>,
      gpr_Labels = []\<rparr>"

definition test_comment :: IssueComment where
  "test_comment = \<lparr>ic_ID = Some 1, ic_Body = Some ''hello world!'', ic_User = None\<rparr>"

text \<open>\<open>newHandler\<close>: the server holds the pull request and the comment.\<close>

definition test_server :: FakeGitHub where
  "test_server = AddComment ''foo'' ''bar'' 1 test_comment (AddPullRequest test_pr NewFakeGitHub)"

definition test_handler :: GitHubHandler where
  "test_handler = \<lparr>owner = ''foo'', repo = ''bar'', prNum = 1\<rparr>"

text \<open>A world with the given provider and files, where no path is refused and no call was made.\<close>

definition startWorld :: "'p \<Rightarrow> (string \<Rightarrow> json option) \<Rightarrow> 'p world" where
  "startWorld p fs = \<lparr>provider = p, files = fs, refused = (\<lambda>_. False), trace = []\<rparr>"

definition recordWith :: "Comment list \<Rightarrow> Label list \<Rightarrow> PullRequest" where
  "recordWith cs ls =
     \<lparr>pr_Type = ''github'', pr_ID = 1, pr_Head = None, pr_Base = None,
      pr_Comments = Some cs, pr_Labels = Some ls, pr_Raw = []\<rparr>"

text \<open>The record that \<open>TestUpload\<close> writes, and the world in which it calls \<open>Upload\<close>.\<close>

definition tektonPR :: PullRequest where
  "tektonPR =
     \<lparr>pr_Type = ''github'', pr_ID = 1,
      pr_Head = Some \<lparr>ref_Repo = ''https://github.com/baz/bar'', ref_Branch = ''feature'',
                      ref_SHA = ''2''\<rparr>,
      pr_Base = Some \<lparr>ref_Repo = ''https://github.com/foo/bar'', ref_Branch = ''master'',
                      ref_SHA = ''1''\<rparr>,
      pr_Comments = Some [\<lparr>c_Text = ''hello world!'', c_Author = [], c_ID = 1, c_Raw = []\<rparr>,
                          \<lparr>c_Text = ''abc123'', c_Author = [], c_ID = 0, c_Raw = []\<rparr>],
      pr_Labels = Some [\<lparr>l_Text = ''tacocat''\<rparr>],
      pr_Raw = []\<rparr>"

definition uploadWorld :: "'p \<Rightarrow> PullRequest \<Rightarrow> 'p world" where
  "uploadWorld p r = startWorld p [''/tmp/pr.json'' \<mapsto> enc_PullRequest r]"



text \<open>The record of \<open>TestUpload\<close> with a second new comment.\<close>

definition twoNewComments :: PullRequest where
  "twoNewComments =
     recordWith [\<lparr>c_Text = ''hello world!'', c_Author = [], c_ID = 1, c_Raw = []\<rparr>,
                 \<lparr>c_Text = ''first'', c_Author = [], c_ID = 0, c_Raw = []\<rparr>,
                 \<lparr>c_Text = ''second'', c_Author = [], c_ID = 0, c_Raw = []\<rparr>] []"

section \<open>What Download is expected to leave\<close>

text \<open>The generic record that \<open>Download\<close> assembles from the payload and the comments.\<close>

definition genericRecord :: "string \<Rightarrow> ghPullRequest \<Rightarrow> IssueComment list \<Rightarrow> PullRequest" where
  "genericRecord path gpr ic =
     (toPullRequest (Join (Join path ''github'') ''pr.json'') gpr)
       \<lparr>pr_Comments := Some (map (toComment (Join (Join path ''github'') ''comments'')) ic),
        pr_Labels := Some (toLabels (gpr_Labels gpr))\<rparr>"

section \<open>Splitting a path\<close>

lemma Split_not_Nil: "Split sep s \<noteq> []"
  by (induction s) (auto split: list.splits)

lemma Split_no_sep: "sep \<notin> set a \<Longrightarrow> Split sep a = [a]"
  by (induction a) auto

lemma Split_append: "sep \<notin> set a \<Longrightarrow> Split sep (a @ sep # r) = a # Split sep r"
  by (induction a) auto

lemma length_Split: "length (Split sep s) = Suc (count_list s sep)"
  by (induction s) (auto split: list.splits simp: Split_not_Nil)

lemma last_Split: "last (Split sep s) = rev (takeWhile (\<lambda>c. c \<noteq> sep) (rev s))"
proof (induction s)
  case Nil
  then show ?case by simp
next
  case (Cons c cs)
  show ?case
  proof (cases "c = sep")
    case True
    then show ?thesis using Cons by (simp add: Split_not_Nil takeWhile_append)
  next
    case False
    obtain p ps where sp: "Split sep cs = p # ps"
      using Split_not_Nil [of sep cs] by (cases "Split sep cs") auto
    show ?thesis
    proof (cases "sep \<in> set cs")
      case True
      then have "ps \<noteq> []" using length_Split [of sep cs] sp
        by (cases ps) (auto simp: count_list_0_iff)
      then show ?thesis using Cons sp False True by (auto simp: takeWhile_append)
    next
      case absent: False
      then show ?thesis using False by (simp add: Split_no_sep takeWhile_append)
    qed
  qed
qed

lemma fifth_is_last: "length xs = 5 \<Longrightarrow> xs ! 4 = last xs"
proof -
  assume len: "length xs = 5"
  then have "xs \<noteq> []" by auto
  then show ?thesis using len by (simp add: last_conv_nth)
qed

section \<open>Handler construction\<close>

text \<open>
  Claim C2, as the code has it. When the parsed path is
  \<open>/owner/repo/token/number\<close> and nothing more, with any scheme, any host and any
  token, and the number is an integer for \<open>strconv.Atoi\<close>, \<open>NewGitHubHandler\<close> returns
  the owner, the repository and the number. When a slash follows the number (a trailing
  slash, or further segments), the path has more than five pieces and construction fails
  with \<open>could not determine PR from URL\<close>.
\<close>

theorem NewGitHubHandler_exact_shape:
  assumes "parse rawURL = Inr u"
    and "Path u = CHR ''/'' # own @ CHR ''/'' # rp @ CHR ''/'' # tok @ CHR ''/'' # num @ sfx"
    and "CHR ''/'' \<notin> set own" and "CHR ''/'' \<notin> set rp"
    and "CHR ''/'' \<notin> set tok" and "CHR ''/'' \<notin> set num"
    and "sfx = [] \<or> hd sfx = CHR ''/''"
    and "Atoi num = Some n"
  shows "NewGitHubHandler parse rawURL =
           (if sfx = [] then Inr \<lparr>owner = own, repo = rp, prNum = n\<rparr>
            else Inl (CouldNotDeterminePR rawURL))"
proof (cases "sfx = []")
  case True
  have "Split (CHR ''/'') (Path u) = [[], own, rp, tok, num]"
    using assms True Split_append [of "CHR ''/''" "[]"] by (simp add: Split_append Split_no_sep)
  then show ?thesis using assms True by (simp add: NewGitHubHandler_def)
next
  case False
  then obtain r where "sfx = CHR ''/'' # r" using assms(7) by (cases sfx) auto
  then have "Split (CHR ''/'') (Path u) = [] # own # rp # tok # num # Split (CHR ''/'') r"
    using assms Split_append [of "CHR ''/''" "[]"] by (simp add: Split_append)
  then have "length (Split (CHR ''/'') (Path u)) \<noteq> 5"
    using Split_not_Nil [of "CHR ''/''" r] by simp
  then show ?thesis using assms False by (simp add: NewGitHubHandler_def Let_def)
qed

theorem NewGitHubHandler_exact_shape_witness:
  "NewGitHubHandler url_Parse ''ssh://example.com/owner/repo/foo/1''
     = Inr \<lparr>owner = ''owner'', repo = ''repo'', prNum = 1\<rparr>
   \<and> NewGitHubHandler url_Parse ''http://github.com/owner/repo/pull/7/commits''
     = Inl (CouldNotDeterminePR ''http://github.com/owner/repo/pull/7/commits'')"
proof -
  have p1: "url_Parse ''ssh://example.com/owner/repo/foo/1''
              = Inr \<lparr>Scheme = ''ssh'', Opaque = [], Host = ''example.com'',
                     Path = ''/owner/repo/foo/1'', RawQuery = [], Fragment = []\<rparr>"
    by code_simp
  have p2: "url_Parse ''http://github.com/owner/repo/pull/7/commits''
              = Inr \<lparr>Scheme = ''http'', Opaque = [], Host = ''github.com'',
                     Path = ''/owner/repo/pull/7/commits'', RawQuery = [], Fragment = []\<rparr>"
    by code_simp
  have a1: "Atoi ''1'' = Some 1" by code_simp
  have a7: "Atoi ''7'' = Some 7" by code_simp
  have r1: "NewGitHubHandler url_Parse ''ssh://example.com/owner/repo/foo/1''
              = Inr \<lparr>owner = ''owner'', repo = ''repo'', prNum = 1\<rparr>"
    using NewGitHubHandler_exact_shape
            [of url_Parse "''ssh://example.com/owner/repo/foo/1''" _
                "''owner''" "''repo''" "''foo''" "''1''" "[]" 1, OF p1] a1
    by simp
  have r2: "NewGitHubHandler url_Parse ''http://github.com/owner/repo/pull/7/commits''
              = Inl (CouldNotDeterminePR ''http://github.com/owner/repo/pull/7/commits'')"
    using NewGitHubHandler_exact_shape
            [of url_Parse "''http://github.com/owner/repo/pull/7/commits''" _
                "''owner''" "''repo''" "''pull''" "''7''" "''/commits''" 7, OF p2] a7
    by simp
  show ?thesis using r1 r2 by simp
qed

text \<open>
  Claim C2 as stated fails: a URL of the spec's own list, with the segment \<open>files\<close>
  after the number, is refused by the constructor.
\<close>

theorem NewGitHubHandler_suffix_refused:
  "NewGitHubHandler url_Parse ''https://github.com/owner/repo/pulls/1/files''
     = Inl (CouldNotDeterminePR ''https://github.com/owner/repo/pulls/1/files'')
   \<and> NewGitHubHandler url_Parse ''https://github.com/owner/repo/pulls/1/files''
     \<noteq> Inr \<lparr>owner = ''owner'', repo = ''repo'', prNum = 1\<rparr>"
proof -
  have "NewGitHubHandler url_Parse ''https://github.com/owner/repo/pulls/1/files''
     = Inl (CouldNotDeterminePR ''https://github.com/owner/repo/pulls/1/files'')"
    by code_simp
  then show ?thesis by simp
qed

text \<open>
  Claim C8, as the code has it. Construction fails in exactly three ways: the URL parser
  fails, and its error is returned; the parsed path does not have exactly four slashes,
  that is five pieces (which covers the empty input and a path that is too short, and
  also one that is too long), with the error \<open>could not determine PR from URL\<close> that
  carries the raw URL; or the text after the fourth slash is not an integer, with the
  error \<open>error parsing PR number\<close> that carries that text. Otherwise it succeeds.
\<close>

theorem NewGitHubHandler_failures:
  "NewGitHubHandler parse rawURL =
     (case parse rawURL of
        Inl e \<Rightarrow> Inl e
      | Inr u \<Rightarrow>
          if count_list (Path u) (CHR ''/'') \<noteq> 4 then Inl (CouldNotDeterminePR rawURL)
          else (case Atoi (lastSegment (Path u)) of
                  None \<Rightarrow> Inl (ErrorParsingPRNumber (lastSegment (Path u)))
                | Some n \<Rightarrow> Inr \<lparr>owner = Split (CHR ''/'') (Path u) ! 1,
                                 repo = Split (CHR ''/'') (Path u) ! 2, prNum = n\<rparr>))"
proof (cases "parse rawURL")
  case (Inl e)
  then show ?thesis by (simp add: NewGitHubHandler_def)
next
  case (Inr u)
  show ?thesis
  proof (cases "count_list (Path u) (CHR ''/'') = 4")
    case True
    then have len: "length (Split (CHR ''/'') (Path u)) = 5" by (simp add: length_Split)
    have "Split (CHR ''/'') (Path u) ! 4 = lastSegment (Path u)"
      using fifth_is_last [OF len] by (simp add: last_Split lastSegment_def)
    then show ?thesis using Inr True len by (simp add: NewGitHubHandler_def Let_def)
  next
    case False
    then show ?thesis using Inr by (simp add: NewGitHubHandler_def length_Split Let_def)
  qed
qed

theorem NewGitHubHandler_failures_witness:
  "NewGitHubHandler url_Parse '''' = Inl (CouldNotDeterminePR '''')
   \<and> NewGitHubHandler url_Parse ''https://github.com/owner/repo''
       = Inl (CouldNotDeterminePR ''https://github.com/owner/repo'')
   \<and> NewGitHubHandler url_Parse ''https://github.com/owner/repo/pulls/foo''
       = Inl (ErrorParsingPRNumber ''foo'')
   \<and> NewGitHubHandler url_Parse '':'' = Inl (URLParseError '':'')"
proof -
  have p0: "url_Parse '''' = Inr \<lparr>Scheme = [], Opaque = [], Host = [], Path = [],
                                  RawQuery = [], Fragment = []\<rparr>"
    by code_simp
  have p1: "url_Parse ''https://github.com/owner/repo''
              = Inr \<lparr>Scheme = ''https'', Opaque = [], Host = ''github.com'',
                     Path = ''/owner/repo'', RawQuery = [], Fragment = []\<rparr>"
    by code_simp
  have p2: "url_Parse ''https://github.com/owner/repo/pulls/foo''
              = Inr \<lparr>Scheme = ''https'', Opaque = [], Host = ''github.com'',
                     Path = ''/owner/repo/pulls/foo'', RawQuery = [], Fragment = []\<rparr>"
    by code_simp
  have p3: "url_Parse '':'' = Inl (URLParseError '':'')"
    by code_simp
  have a: "Atoi ''foo'' = None" by code_simp
  show ?thesis
    using NewGitHubHandler_failures [of url_Parse "''''"]
      NewGitHubHandler_failures [of url_Parse "''https://github.com/owner/repo''"]
      NewGitHubHandler_failures [of url_Parse "''https://github.com/owner/repo/pulls/foo''"]
      NewGitHubHandler_failures [of url_Parse "'':''"]
    by (simp add: p0 p1 p2 p3 a lastSegment_def)
qed

text \<open>
  Claim C8 as stated fails: with a trailing slash the input is not empty, the path has
  no fewer than five pieces and the piece in the number's position is the integer 1, and
  yet construction fails, with the same error as for the empty input and for a path that
  is too short.
\<close>

theorem NewGitHubHandler_trailing_slash_fails:
  "NewGitHubHandler url_Parse ''https://github.com/owner/repo/pulls/1/''
     = Inl (CouldNotDeterminePR ''https://github.com/owner/repo/pulls/1/'')
   \<and> ''https://github.com/owner/repo/pulls/1/'' \<noteq> ''''
   \<and> \<not> length (Split (CHR ''/'') ''/owner/repo/pulls/1/'') < 5
   \<and> Atoi (Split (CHR ''/'') ''/owner/repo/pulls/1/'' ! 4) = Some 1
   \<and> url_Parse ''https://github.com/owner/repo/pulls/1/''
     = Inr \<lparr>Scheme = ''https'', Opaque = [], Host = ''github.com'',
            Path = ''/owner/repo/pulls/1/'', RawQuery = [], Fragment = []\<rparr>"
  by code_simp

section \<open>The calls of a run\<close>

lemma do_Get_E:
  "do_Get cl h w = (r, w') \<Longrightarrow>
     trace w' = trace w @ [(GetPullRequest (owner h) (repo h) (prNum h), outcome r)]
     \<and> files w' = files w \<and> refused w' = refused w
     \<and> PullRequests_Get cl (owner h) (repo h) (prNum h) (provider w) = (r, provider w')"
  by (auto simp: do_Get_def split: prod.splits)

lemma do_ListComments_E:
  "do_ListComments cl h w = (r, w') \<Longrightarrow>
     trace w' = trace w @ [(ListComments (owner h) (repo h) (prNum h), outcome r)]
     \<and> files w' = files w \<and> refused w' = refused w
     \<and> Issues_ListComments cl (owner h) (repo h) (prNum h) (provider w) = (r, provider w')"
  by (auto simp: do_ListComments_def split: prod.splits)

lemma do_ReplaceLabels_E:
  "do_ReplaceLabels cl h names w = (r, w') \<Longrightarrow>
     trace w' = trace w @ [(ReplaceLabels (owner h) (repo h) (prNum h) names, r)]
     \<and> files w' = files w \<and> refused w' = refused w
     \<and> Issues_ReplaceLabelsForIssue cl (owner h) (repo h) (prNum h) names (provider w) = (r, provider w')"
  by (auto simp: do_ReplaceLabels_def split: prod.splits)

lemma do_DeleteComment_E:
  "do_DeleteComment cl h i w = (r, w') \<Longrightarrow>
     trace w' = trace w @ [(DeleteComment (owner h) (repo h) i, r)]
     \<and> files w' = files w \<and> refused w' = refused w"
  by (auto simp: do_DeleteComment_def split: prod.splits)

lemma do_EditComment_E:
  "do_EditComment cl h i c w = (r, w') \<Longrightarrow>
     trace w' = trace w @ [(EditComment (owner h) (repo h) i c, r)]
     \<and> files w' = files w \<and> refused w' = refused w"
  by (auto simp: do_EditComment_def split: prod.splits)

lemma do_CreateComment_E:
  "do_CreateComment cl h c w = (r, w') \<Longrightarrow>
     trace w' = trace w @ [(CreateComment (owner h) (repo h) (prNum h) c, r)]
     \<and> files w' = files w \<and> refused w' = refused w"
  by (auto simp: do_CreateComment_def split: prod.splits)

lemma syncOne_E:
  "syncOne cl h d ec w = (r, w') \<Longrightarrow>
     trace w' = trace w @ map (\<lambda>c. (c, r)) (action h d ec)
     \<and> (r \<noteq> None \<longrightarrow> action h d ec \<noteq> [])
     \<and> files w' = files w \<and> refused w' = refused w"
  by (auto simp: syncOne_def action_def dest: do_DeleteComment_E do_EditComment_E
           split: option.splits if_splits)

lemma ranUntil_Nil: "ranUntil [] None"
  by (simp add: ranUntil_def)

lemma ranUntil_append:
  "ranUntil a None \<Longrightarrow> ranUntil b r \<Longrightarrow> ranUntil (a @ b) r"
  by (cases r) (auto simp: ranUntil_def butlast_append)

lemma ranUntil_single: "ranUntil [(c, r)] r"
  by (cases r) (auto simp: ranUntil_def)

lemma ranUntil_action: "length cs \<le> 1 \<Longrightarrow> (r \<noteq> None \<longrightarrow> cs \<noteq> []) \<Longrightarrow> ranUntil (map (\<lambda>c. (c, r)) cs) r"
  by (cases cs; cases r) (auto simp: ranUntil_def)

lemma length_action: "length (action h d ec) \<le> 1"
  by (simp add: action_def split: option.splits)

lemma syncExisting_E:
  "syncExisting cl h ecs d w = (r, w') \<Longrightarrow>
     (\<exists>new sfx. trace w' = trace w @ new \<and> ranUntil new (outcome r)
        \<and> syncPlan h ecs d = map fst new @ sfx
        \<and> (\<forall>d'. r = Inr d' \<longrightarrow> sfx = []
              \<and> d' = foldl (\<lambda>m ec. AList.delete (GetID ec) m) d ecs))
     \<and> files w' = files w \<and> refused w' = refused w"
proof (induction ecs arbitrary: d w)
  case Nil
  then show ?case by (auto simp: ranUntil_def outcome_def)
next
  case (Cons ec ecs)
  obtain r1 w1 where one: "syncOne cl h d ec w = (r1, w1)" by (cases "syncOne cl h d ec w")
  note e1 = syncOne_E [OF one]
  show ?case
  proof (cases r1)
    case (Some e)
    then have res: "r = Inl e" "w' = w1" using Cons.prems one by auto
    have "ranUntil (map (\<lambda>c. (c, r1)) (action h d ec)) (Some e)"
      using ranUntil_action [of "action h d ec" r1] e1 Some length_action by auto
    then show ?thesis using e1 res Some
      by (auto simp: outcome_def comp_def intro!: exI [of _ "map (\<lambda>c. (c, Some e)) (action h d ec)"])
  next
    case None
    then have rest: "syncExisting cl h ecs (AList.delete (GetID ec) d) w1 = (r, w')"
      using Cons.prems one by auto
    from Cons.IH [OF rest] obtain new sfx where
      ih: "trace w' = trace w1 @ new" "ranUntil new (outcome r)"
          "syncPlan h ecs (AList.delete (GetID ec) d) = map fst new @ sfx"
          "\<forall>d'. r = Inr d' \<longrightarrow> sfx = []
              \<and> d' = foldl (\<lambda>m ec. AList.delete (GetID ec) m) (AList.delete (GetID ec) d) ecs"
          "files w' = files w1" "refused w' = refused w1"
      by blast
    have a: "ranUntil (map (\<lambda>c. (c, r1)) (action h d ec)) None"
      using None by (simp add: ranUntil_def list_all_iff)
    let ?new = "map (\<lambda>c. (c, r1)) (action h d ec) @ new"
    have "trace w' = trace w @ ?new" using e1 ih by simp
    moreover have "ranUntil ?new (outcome r)" using ranUntil_append [OF a ih(2)] .
    moreover have "syncPlan h (ec # ecs) d = map fst ?new @ sfx"
      using ih(3) by (simp add: comp_def)
    ultimately show ?thesis using ih(4,5,6) e1 by (intro conjI exI [of _ ?new] exI [of _ sfx]) auto
  qed
qed

lemma createAll_E:
  "createAll cl h dcs w = (r, w') \<Longrightarrow>
     (\<exists>new sfx. trace w' = trace w @ new \<and> ranUntil new r
        \<and> createPlan h dcs = map fst new @ sfx \<and> (r = None \<longrightarrow> sfx = []))
     \<and> files w' = files w \<and> refused w' = refused w"
proof (induction dcs arbitrary: w)
  case Nil
  then show ?case by (auto simp: ranUntil_def createPlan_def)
next
  case (Cons dc dcs)
  obtain r1 w1 where one: "do_CreateComment cl h (newComment dc) w = (r1, w1)"
    by (cases "do_CreateComment cl h (newComment dc) w")
  note e1 = do_CreateComment_E [OF one]
  show ?case
  proof (cases r1)
    case (Some e)
    then have res: "r = Some e" "w' = w1" using Cons.prems one by auto
    show ?thesis using e1 res Some ranUntil_single [of _ "Some e"]
      by (auto simp: createPlan_def
               intro!: exI [of _ "[(CreateComment (owner h) (repo h) (prNum h) (newComment dc), Some e)]"])
  next
    case None
    then have rest: "createAll cl h dcs w1 = (r, w')" using Cons.prems one by auto
    from Cons.IH [OF rest] obtain new sfx where
      ih: "trace w' = trace w1 @ new" "ranUntil new r"
          "createPlan h dcs = map fst new @ sfx" "r = None \<longrightarrow> sfx = []"
          "files w' = files w1" "refused w' = refused w1"
      by blast
    let ?c = "(CreateComment (owner h) (repo h) (prNum h) (newComment dc), None :: error option)"
    have "ranUntil ([?c] @ new) r"
      by (rule ranUntil_append [OF _ ih(2)]) (simp add: ranUntil_def)
    then show ?thesis using e1 ih None
      by (intro conjI exI [of _ "?c # new"] exI [of _ sfx]) (auto simp: createPlan_def)
  qed
qed

lemma isCommentCall_action: "list_all isCommentCall (action h d ec)"
  by (simp add: action_def isCommentCall_def split: option.splits)

lemma isCommentCall_syncPlan: "list_all isCommentCall (syncPlan h ecs d)"
  by (induction ecs arbitrary: d) (simp_all add: isCommentCall_action)

lemma isCommentCall_createPlan: "list_all isCommentCall (createPlan h dcs)"
  by (simp add: createPlan_def isCommentCall_def list_all_iff)




lemma Upload_label_failure:
  assumes "readJSON (Join path prFile) dec_PullRequest w = Inr pr"
    and "Issues_ReplaceLabelsForIssue cl (owner h) (repo h) (prNum h)
           (map l_Text (elems (pr_Labels pr))) (provider w) = (Some e, p)"
  shows "Upload cl seed h path w =
           (Some e, w\<lparr>provider := p,
                      trace := trace w @ [(ReplaceLabels (owner h) (repo h) (prNum h)
                                            (map l_Text (elems (pr_Labels pr))), Some e)]\<rparr>)"
  using assms by (simp add: Upload_def do_ReplaceLabels_def)

lemma Upload_general:
  assumes rd: "readJSON (Join path prFile) dec_PullRequest w = Inr pr"
    and up: "Upload cl seed h path w = (res, w')"
  shows "\<exists>new sfx tail. trace w' = trace w @ new \<and> ranUntil new res \<and> new \<noteq> []
           \<and> ReplaceLabels (owner h) (repo h) (prNum h) (map l_Text (elems (pr_Labels pr)))
               # ListComments (owner h) (repo h) (prNum h) # tail = map fst new @ sfx
           \<and> list_all isCommentCall tail"
    and "files w' = files w"
proof -
  let ?names = "map l_Text (elems (pr_Labels pr))"
  let ?R = "ReplaceLabels (owner h) (repo h) (prNum h) ?names"
  let ?L = "ListComments (owner h) (repo h) (prNum h)"
  let ?d = "desiredComments (elems (pr_Comments pr))"
  obtain r1 w1 where s1: "do_ReplaceLabels cl h ?names w = (r1, w1)"
    by (cases "do_ReplaceLabels cl h ?names w")
  note e1 = do_ReplaceLabels_E [OF s1]
  have "(\<exists>new sfx tail. trace w' = trace w @ new \<and> ranUntil new res \<and> new \<noteq> []
           \<and> ?R # ?L # tail = map fst new @ sfx \<and> list_all isCommentCall tail)
        \<and> files w' = files w"
  proof (cases r1)
    case (Some e)
    then have "res = Some e" "w' = w1" using up rd s1 by (auto simp: Upload_def)
    then show ?thesis using e1 Some ranUntil_single [of ?R "Some e"]
      by (auto intro!: exI [of _ "[(?R, Some e)]"] exI [of _ "[]"])
  next
    case None
    obtain r2 w2 where s2: "do_ListComments cl h w1 = (r2, w2)"
      by (cases "do_ListComments cl h w1")
    note e2 = do_ListComments_E [OF s2]
    show ?thesis
    proof (cases r2)
      case (Inl e)
      then have "res = Some e" "w' = w2" using up rd s1 s2 None by (auto simp: Upload_def)
      moreover have "ranUntil [(?R, None), (?L, Some e)] (Some e)" by (simp add: ranUntil_def)
      ultimately show ?thesis using e1 e2 None Inl
        by (auto simp: outcome_def intro!: exI [of _ "[(?R, None), (?L, Some e)]"] exI [of _ "[]"])
    next
      case (Inr existing)
      obtain r3 w3 where s3: "syncExisting cl h existing ?d w2 = (r3, w3)"
        by (cases "syncExisting cl h existing ?d w2")
      from syncExisting_E [OF s3] obtain new3 sfx3 where
        e3: "trace w3 = trace w2 @ new3" "ranUntil new3 (outcome r3)"
            "syncPlan h existing ?d = map fst new3 @ sfx3"
            "\<forall>d'. r3 = Inr d' \<longrightarrow> sfx3 = []" "files w3 = files w2"
        by blast
      have pre: "ranUntil [(?R, None), (?L, None)] None" by (simp add: ranUntil_def)
      show ?thesis
      proof (cases r3)
        case e: (Inl e)
        then have res: "res = Some e" "w' = w3"
          using up rd s1 s2 s3 None Inr by (auto simp: Upload_def)
        have "ranUntil ([(?R, None), (?L, None)] @ new3) res"
          using ranUntil_append [OF pre] e3(2) e res by (simp add: outcome_def)
        moreover have "trace w' = trace w @ [(?R, None), (?L, None)] @ new3"
          using e1 e2 e3 res None Inr by (simp add: outcome_def)
        moreover have "?R # ?L # syncPlan h existing ?d
                         = map fst ([(?R, None), (?L, None)] @ new3) @ sfx3"
          using e3(3) by simp
        ultimately show ?thesis using e1 e2 e3(5) res isCommentCall_syncPlan [of h existing ?d]
          by (intro conjI exI [of _ "[(?R, None), (?L, None)] @ new3"] exI [of _ sfx3]
                exI [of _ "syncPlan h existing ?d"]) auto
      next
        case d: (Inr remaining)
        let ?dcs = "map snd (rangeOrder seed remaining)"
        have s4: "createAll cl h ?dcs w3 = (res, w')"
          using up rd s1 s2 s3 None Inr d by (auto simp: Upload_def)
        from createAll_E [OF s4] obtain new4 sfx4 where
          e4: "trace w' = trace w3 @ new4" "ranUntil new4 res"
              "createPlan h ?dcs = map fst new4 @ sfx4" "files w' = files w3"
          by blast
        have n3: "ranUntil new3 None" using e3(2) d by (simp add: outcome_def)
        have "ranUntil (([(?R, None), (?L, None)] @ new3) @ new4) res"
          by (rule ranUntil_append [OF ranUntil_append [OF pre n3] e4(2)])
        moreover have "trace w' = trace w @ ([(?R, None), (?L, None)] @ new3) @ new4"
          using e1 e2 e3 e4 None Inr by (simp add: outcome_def)
        moreover have "?R # ?L # (syncPlan h existing ?d @ createPlan h ?dcs)
                         = map fst (([(?R, None), (?L, None)] @ new3) @ new4) @ sfx4"
          using e3(3,4) e4(3) d by simp
        moreover have "list_all isCommentCall (syncPlan h existing ?d @ createPlan h ?dcs)"
          using isCommentCall_syncPlan isCommentCall_createPlan by simp
        ultimately show ?thesis using e1 e2 e3(5) e4(4)
          by (intro conjI exI [of _ "([(?R, None), (?L, None)] @ new3) @ new4"] exI [of _ sfx4]
                exI [of _ "syncPlan h existing ?d @ createPlan h ?dcs"]) auto
      qed
    qed
  qed
  then show "\<exists>new sfx tail. trace w' = trace w @ new \<and> ranUntil new res \<and> new \<noteq> []
           \<and> ?R # ?L # tail = map fst new @ sfx \<and> list_all isCommentCall tail"
    and "files w' = files w" by blast+
qed


lemma added_append: "trace w' = trace w @ new \<Longrightarrow> added w w' = new"
  by (simp add: added_def)

lemma not_ReplaceLabels_if_comment: "isCommentCall c \<Longrightarrow> \<not> isReplaceLabels c"
  by (cases c) (simp_all add: isCommentCall_def isReplaceLabels_def)

text \<open>The shape of every run of Upload that could read its record.\<close>

lemma Upload_shape:
  assumes rd: "readJSON (Join path prFile) dec_PullRequest w = Inr pr"
    and up: "Upload cl seed h path w = (res, w')"
  shows "\<exists>rest. calls w w' = ReplaceLabels (owner h) (repo h) (prNum h)
                               (map l_Text (elems (pr_Labels pr))) # rest
           \<and> list_all (\<lambda>c. \<not> isReplaceLabels c) rest
           \<and> (rest = [] \<or> \<not> isCommentCall (hd rest))"
    and "trace w' = trace w @ added w w'"
    and "ranUntil (added w w') res"
proof -
  from Upload_general(1) [OF rd up] obtain new sfx tail where
    g: "trace w' = trace w @ new" "ranUntil new res" "new \<noteq> []"
       "ReplaceLabels (owner h) (repo h) (prNum h) (map l_Text (elems (pr_Labels pr)))
          # ListComments (owner h) (repo h) (prNum h) # tail = map fst new @ sfx"
       "list_all isCommentCall tail"
    by blast
  have a: "added w w' = new" using g(1) by (rule added_append)
  show "trace w' = trace w @ added w w'" using g(1) a by simp
  show "ranUntil (added w w') res" using g(2) a by simp
  obtain c rest where cr: "map fst new = c # rest" using g(3) by (cases "map fst new") auto
  then have c: "c = ReplaceLabels (owner h) (repo h) (prNum h) (map l_Text (elems (pr_Labels pr)))"
    and rest: "ListComments (owner h) (repo h) (prNum h) # tail = rest @ sfx"
    using g(4) by auto
  have "list_all (\<lambda>c. \<not> isReplaceLabels c) (ListComments (owner h) (repo h) (prNum h) # tail)"
    using g(5) not_ReplaceLabels_if_comment by (auto simp: list_all_iff isReplaceLabels_def)
  then have "list_all (\<lambda>c. \<not> isReplaceLabels c) (rest @ sfx)" using rest by simp
  then have r1: "list_all (\<lambda>c. \<not> isReplaceLabels c) rest" by simp
  have r2: "rest = [] \<or> \<not> isCommentCall (hd rest)"
  proof (cases rest)
    case Nil then show ?thesis by simp
  next
    case (Cons x xs)
    then have "x = ListComments (owner h) (repo h) (prNum h)" using rest by simp
    then show ?thesis using Cons by (simp add: isCommentCall_def)
  qed
  show "\<exists>rest. calls w w' = ReplaceLabels (owner h) (repo h) (prNum h)
                               (map l_Text (elems (pr_Labels pr))) # rest
           \<and> list_all (\<lambda>c. \<not> isReplaceLabels c) rest
           \<and> (rest = [] \<or> \<not> isCommentCall (hd rest))"
    using cr c r1 r2 a by (auto simp: calls_def)
qed



section \<open>The map of desired comments\<close>





section \<open>The calls on one comment\<close>










section \<open>Reading back what was written\<close>

lemma dec_int64_sint: "dec_int64 (JNum (sint (i :: int64))) = Some i"
  using sint_ge [of i] sint_lt [of i] by (simp add: dec_int64_def)

lemma those_map_dec:
  "(\<And>x. dec (enc x) = Some x) \<Longrightarrow> those (map (dec \<circ> enc) xs) = Some xs"
  by (induction xs) simp_all

lemma dec_enc_GitReference:
  "dec_ptr dec_GitReference (enc_GitReference g) = Some g"
  by (cases g)
     (simp_all add: dec_ptr_def dec_GitReference_def enc_GitReference_def member_def dec_string_def)

lemma dec_enc_Comment: "dec_Comment (enc_Comment c) = Some c"
  by (simp add: dec_Comment_def enc_Comment_def member_def dec_string_def dec_int64_sint)

lemma dec_enc_Label: "dec_Label (enc_Label l) = Some l"
  by (simp add: dec_Label_def enc_Label_def member_def dec_string_def)

lemma dec_enc_Comments: "dec_slice dec_Comment (enc_slice enc_Comment cs) = Some cs"
  by (cases cs) (simp_all add: dec_slice_def enc_slice_def those_map_dec dec_enc_Comment)

lemma dec_enc_Labels: "dec_slice dec_Label (enc_slice enc_Label ls) = Some ls"
  by (cases ls) (simp_all add: dec_slice_def enc_slice_def those_map_dec dec_enc_Label)

lemma dec_enc_PullRequest: "dec_PullRequest (enc_PullRequest r) = Some r"
  by (simp add: dec_PullRequest_def enc_PullRequest_def member_def dec_string_def dec_int64_sint
        dec_enc_GitReference dec_enc_Comments dec_enc_Labels)















section \<open>Decimal forms and paths\<close>

lemma digitsVal_snoc: "digitsVal (ds @ [c]) = 10 * digitsVal ds + (of_char c - 48)"
  by (simp add: digitsVal_def)

lemma digitsVal_natDigits: "digitsVal (natDigits n) = n"
proof (induction n rule: natDigits.induct)
  case (1 n)
  show ?case
  proof (cases "n < 10")
    case True
    then show ?thesis by (simp add: natDigits.simps [of n] digitsVal_def)
  next
    case False
    have "(48 + n mod 10) mod 256 = 48 + n mod 10" by simp
    then show ?thesis using False 1
      by (simp add: natDigits.simps [of n] digitsVal_snoc)
  qed
qed

lemma natDigits_digits: "c \<in> set (natDigits n) \<Longrightarrow> isDigit c"
proof (induction n rule: natDigits.induct)
  case (1 n)
  have d: "isDigit (char_of (48 + k))" if "k < 10" for k :: nat
  proof -
    have "(48 + k) mod 256 = 48 + k" using that by simp
    then show ?thesis using that by (simp add: isDigit_def)
  qed
  show ?case
  proof (cases "n < 10")
    case True
    then show ?thesis using 1(2) d by (simp add: natDigits.simps [of n])
  next
    case False
    then show ?thesis using 1 d [of "n mod 10"] by (auto simp: natDigits.simps [of n])
  qed
qed

lemma natDigits_not_Nil: "natDigits n \<noteq> []"
  by (simp add: natDigits.simps [of n])

lemma natDigits_inj: "natDigits m = natDigits n \<Longrightarrow> m = n"
  by (metis digitsVal_natDigits)

lemma natDigits_no_minus: "natDigits n \<noteq> CHR ''-'' # s"
proof
  assume "natDigits n = CHR ''-'' # s"
  then have "CHR ''-'' \<in> set (natDigits n)" by simp
  then have "isDigit (CHR ''-'')" by (rule natDigits_digits)
  then show False by (simp add: isDigit_def)
qed

lemma formatInt_inj: "formatInt i = formatInt j \<Longrightarrow> i = j"
proof -
  assume eq: "formatInt i = formatInt j"
  consider "i < 0" "j < 0" | "i < 0" "\<not> j < 0" | "\<not> i < 0" "j < 0" | "\<not> i < 0" "\<not> j < 0" by blast
  then show ?thesis
  proof cases
    case 1
    then have "nat (- i) = nat (- j)" using eq natDigits_inj by (simp add: formatInt_def)
    then show ?thesis using 1 by simp
  next
    case 2
    then show ?thesis using eq natDigits_no_minus [of "nat j" "natDigits (nat (- i))"]
      by (simp add: formatInt_def)
  next
    case 3
    then show ?thesis using eq natDigits_no_minus [of "nat i" "natDigits (nat (- j))"]
      by (simp add: formatInt_def)
  next
    case 4
    then have "nat i = nat j" using eq natDigits_inj by (simp add: formatInt_def)
    then show ?thesis using 4 by simp
  qed
qed

lemma rawCommentPath_inj:
  "rawCommentPath pre c = rawCommentPath pre c' \<Longrightarrow> GetID c = GetID c'"
proof -
  assume "rawCommentPath pre c = rawCommentPath pre c'"
  then have "formatInt (sint (GetID c)) = formatInt (sint (GetID c'))"
    by (simp add: rawCommentPath_def Join_def split: if_splits)
  then have "sint (GetID c) = sint (GetID c')" by (rule formatInt_inj)
  then show ?thesis by (rule signed_word_eqI)
qed

lemma rawPR_not_comment:
  "Join (Join path ''github'') ''pr.json'' \<noteq> rawCommentPath (Join (Join path ''github'') ''comments'') c"
  by (simp add: Join_def rawCommentPath_def)

lemma prPath_not_rawPR: "Join path prFile \<noteq> Join (Join path ''github'') ''pr.json''"
  by (simp add: Join_def prFile_def)

lemma prPath_not_comment:
  "Join path prFile \<noteq> rawCommentPath (Join (Join path ''github'') ''comments'') c"
  by (simp add: Join_def prFile_def rawCommentPath_def)


section \<open>What Download writes\<close>

lemma writeJSON_None:
  "writeJSON p j w = (None, w') \<Longrightarrow> w' = w\<lparr>files := (files w)(p \<mapsto> j)\<rparr>"
  by (simp add: writeJSON_def split: if_splits)

lemma downloadComments_Inr:
  "downloadComments pre ic acc w = (Inr cs, w') \<Longrightarrow>
     cs = acc @ map (toComment pre) ic
     \<and> trace w' = trace w \<and> provider w' = provider w \<and> refused w' = refused w
     \<and> (\<forall>p. p \<notin> rawCommentPath pre ` set ic \<longrightarrow> files w' p = files w p)
     \<and> (distinct (map GetID ic) \<longrightarrow>
          (\<forall>c \<in> set ic. files w' (rawCommentPath pre c) = Some (enc_IssueComment c)))"
proof (induction ic arbitrary: acc w)
  case Nil
  then show ?case by simp
next
  case (Cons c ic)
  obtain r1 w1 where s1: "writeJSON (rawCommentPath pre c) (enc_IssueComment c) w = (r1, w1)"
    by (cases "writeJSON (rawCommentPath pre c) (enc_IssueComment c) w")
  have r1: "r1 = None" using Cons.prems s1 by (cases r1) auto
  then have w1: "w1 = w\<lparr>files := (files w)(rawCommentPath pre c \<mapsto> enc_IssueComment c)\<rparr>"
    using s1 writeJSON_None by blast
  have rest: "downloadComments pre ic (acc @ [toComment pre c]) w1 = (Inr cs, w')"
    using Cons.prems s1 r1 by simp
  note ih = Cons.IH [OF rest]
  have a: "\<forall>p. p \<notin> rawCommentPath pre ` set (c # ic) \<longrightarrow> files w' p = files w p"
    using ih w1 by simp
  have b: "\<forall>x \<in> set (c # ic). files w' (rawCommentPath pre x) = Some (enc_IssueComment x)"
    if di: "distinct (map GetID (c # ic))"
  proof -
    have "rawCommentPath pre c \<notin> rawCommentPath pre ` set ic"
    proof
      assume "rawCommentPath pre c \<in> rawCommentPath pre ` set ic"
      then obtain x where x: "x \<in> set ic" "rawCommentPath pre c = rawCommentPath pre x" by auto
      then have "GetID c = GetID x" using rawCommentPath_inj by blast
      then have "GetID c \<in> set (map GetID ic)" using x(1) by (metis imageI set_map)
      then show False using di by simp
    qed
    then have "files w' (rawCommentPath pre c) = Some (enc_IssueComment c)"
      using ih w1 by simp
    then show ?thesis using ih di by simp
  qed
  show ?case using ih w1 a b by simp
qed

lemma Download_success:
  assumes dl: "Download cl h path w = (None, w')"
    and g: "PullRequests_Get cl (owner h) (repo h) (prNum h) (provider w) = (Inr gpr, p1)"
    and l: "Issues_ListComments cl (owner h) (repo h) (prNum h) p1 = (Inr ic, p2)"
  shows "files w' (Join path prFile) = Some (enc_PullRequest (genericRecord path gpr ic))"
    and "files w' (Join (Join path ''github'') ''pr.json'') = Some (enc_ghPullRequest gpr)"
    and "distinct (map GetID ic) \<Longrightarrow> c \<in> set ic \<Longrightarrow>
           files w' (rawCommentPath (Join (Join path ''github'') ''comments'') c)
             = Some (enc_IssueComment c)"
    and "provider w' = p2"
    and "trace w' = trace w @ [(GetPullRequest (owner h) (repo h) (prNum h), None),
                               (ListComments (owner h) (repo h) (prNum h), None)]"
    and "refused w' = refused w"
proof -
  let ?rawPrefix = "Join path ''github''"
  let ?rawPR = "Join ?rawPrefix ''pr.json''"
  let ?cpre = "Join ?rawPrefix ''comments''"
  have m1: "MkdirAll ?rawPrefix w = None"
    using dl by (cases "MkdirAll ?rawPrefix w") (simp_all add: Download_def)
  obtain w1 where s1: "do_Get cl h w = (Inr gpr, w1)" and pw1: "provider w1 = p1"
    using g by (simp add: do_Get_def)
  note e1 = do_Get_E [OF s1]
  obtain r2 w2 where s2: "writeJSON ?rawPR (enc_ghPullRequest gpr) w1 = (r2, w2)"
    by (cases "writeJSON ?rawPR (enc_ghPullRequest gpr) w1")
  have r2: "r2 = None" using dl m1 s1 s2 by (cases r2) (auto simp: Download_def)
  then have w2: "w2 = w1\<lparr>files := (files w1)(?rawPR \<mapsto> enc_ghPullRequest gpr)\<rparr>"
    using s2 writeJSON_None by blast
  have m2: "MkdirAll ?cpre w2 = None"
    using dl m1 s1 s2 r2 by (cases "MkdirAll ?cpre w2") (simp_all add: Download_def)
  obtain w3 where s3: "do_ListComments cl h w2 = (Inr ic, w3)"
    using l pw1 w2 by (simp add: do_ListComments_def)
  note e3 = do_ListComments_E [OF s3]
  obtain r4 w4 where s4: "downloadComments ?cpre ic [] w3 = (r4, w4)"
    by (cases "downloadComments ?cpre ic [] w3")
  obtain cs where r4: "r4 = Inr cs"
    using dl m1 s1 s2 r2 m2 s3 s4 by (cases r4) (auto simp: Download_def)
  note e4 = downloadComments_Inr [OF s4 [unfolded r4]]
  let ?pr = "(toPullRequest ?rawPR gpr)\<lparr>pr_Labels := Some (toLabels (gpr_Labels gpr)),
               pr_Comments := Some cs\<rparr>"
  have s5: "writeJSON (Join path prFile) (enc_PullRequest ?pr) w4 = (None, w')"
    using dl m1 s1 s2 r2 m2 s3 s4 r4 by (simp add: Download_def)
  note w5 = writeJSON_None [OF s5]
  have rec: "?pr = genericRecord path gpr ic"
    using e4 by (simp add: genericRecord_def)
  show "files w' (Join path prFile) = Some (enc_PullRequest (genericRecord path gpr ic))"
    using w5 rec by simp
  have "files w4 ?rawPR = files w3 ?rawPR"
    using e4 rawPR_not_comment [of path] by auto
  then show "files w' ?rawPR = Some (enc_ghPullRequest gpr)"
    using w5 e3 w2 prPath_not_rawPR [of path] by simp
  show "files w' (rawCommentPath ?cpre c) = Some (enc_IssueComment c)"
    if "distinct (map GetID ic)" "c \<in> set ic"
    using that e4 w5 prPath_not_comment [of path c] by simp
  show "provider w' = p2" using w5 e4 e3 w2 pw1 l by simp
  show "trace w' = trace w @ [(GetPullRequest (owner h) (repo h) (prNum h), None),
                              (ListComments (owner h) (repo h) (prNum h), None)]"
    using w5 e4 e3 w2 e1 by (simp add: outcome_def)
  show "refused w' = refused w" using w5 e4 e3 w2 e1 by simp
qed


lemma readJSON_written:
  "files w p = Some (enc x) \<Longrightarrow> dec (enc x) = Some x \<Longrightarrow> readJSON p dec w = Inr x"
  by (simp add: readJSON_def)

section \<open>Uploading what was downloaded\<close>









section \<open>Upload: labels\<close>



section \<open>Upload: comments\<close>





text \<open>
  Claim C1 fails on the code. The record of \<open>TestUpload\<close> with two new comments, both
  without ID and with the texts \<open>first\<close> and \<open>second\<close>, is uploaded to the fake server
  of the tests: the map of desired comments has one entry under the ID 0, the later
  comment, so the run succeeds with a single create, and the server ends with the old
  comment and \<open>second\<close> only.
\<close>

theorem Upload_collapses_new_comments:
  "fst (Upload fakeClient [] test_handler ''/tmp'' (uploadWorld test_server twoNewComments)) = None
   \<and> calls (uploadWorld test_server twoNewComments)
        (snd (Upload fakeClient [] test_handler ''/tmp'' (uploadWorld test_server twoNewComments)))
     = [ReplaceLabels ''foo'' ''bar'' 1 [], ListComments ''foo'' ''bar'' 1,
        CreateComment ''foo'' ''bar'' 1
          \<lparr>ic_ID = None, ic_Body = Some ''second'', ic_User = None\<rparr>]
   \<and> fake_comments
        (provider (snd (Upload fakeClient [] test_handler ''/tmp''
                          (uploadWorld test_server twoNewComments))))
        (''foo'', ''bar'', 1)
     = Some [test_comment, \<lparr>ic_ID = Some 2, ic_Body = Some ''second'', ic_User = None\<rparr>]
   \<and> desiredComments (elems (pr_Comments twoNewComments))
     = [(1, \<lparr>c_Text = ''hello world!'', c_Author = [], c_ID = 1, c_Raw = []\<rparr>),
        (0, \<lparr>c_Text = ''second'', c_Author = [], c_ID = 0, c_Raw = []\<rparr>)]"
  by code_simp

section \<open>Download\<close>



text \<open>
  Claim C10. After a successful \<open>Download\<close>, the record in \<open>path/pr.json\<close> has a
  slice of comments and a slice of labels that are not nil, as long as the provider's
  lists, and the file has a JSON array under \<open>Comments\<close> and under \<open>Labels\<close>: the empty
  array when the provider has no comment or no label.
\<close>

theorem Download_slices_not_nil:
  assumes dl: "Download cl h path w = (None, w')"
    and g: "PullRequests_Get cl (owner h) (repo h) (prNum h) (provider w) = (Inr gpr, p1)"
    and l: "Issues_ListComments cl (owner h) (repo h) (prNum h) p1 = (Inr ic, p2)"
  shows "\<exists>r cs ls kvs.
           readJSON (Join path prFile) dec_PullRequest w' = Inr r
         \<and> pr_Comments r = Some cs \<and> length cs = length ic
         \<and> pr_Labels r = Some ls \<and> length ls = length (gpr_Labels gpr)
         \<and> files w' (Join path prFile) = Some (JObj kvs)
         \<and> map_of kvs ''Comments'' = Some (JArr (map enc_Comment cs))
         \<and> map_of kvs ''Labels'' = Some (JArr (map enc_Label ls))
         \<and> (ic = [] \<longrightarrow> map_of kvs ''Comments'' = Some (JArr []))
         \<and> (gpr_Labels gpr = [] \<longrightarrow> map_of kvs ''Labels'' = Some (JArr []))"
proof -
  note d = Download_success [OF dl g l]
  let ?r = "genericRecord path gpr ic"
  let ?cs = "map (toComment (Join (Join path ''github'') ''comments'')) ic"
  let ?ls = "toLabels (gpr_Labels gpr)"
  have rd: "readJSON (Join path prFile) dec_PullRequest w' = Inr ?r"
    using d(1) dec_enc_PullRequest by (rule readJSON_written)
  have c: "pr_Comments ?r = Some ?cs" "pr_Labels ?r = Some ?ls"
    by (simp_all add: genericRecord_def)
  obtain kvs where kvs: "enc_PullRequest ?r = JObj kvs"
    "map_of kvs ''Comments'' = Some (enc_slice enc_Comment (pr_Comments ?r))"
    "map_of kvs ''Labels'' = Some (enc_slice enc_Label (pr_Labels ?r))"
    by (simp add: enc_PullRequest_def)
  have "map_of kvs ''Comments'' = Some (JArr (map enc_Comment ?cs))"
    "map_of kvs ''Labels'' = Some (JArr (map enc_Label ?ls))"
    using kvs c by (simp_all add: enc_slice_def)
  then show ?thesis using rd c d(1) kvs(1)
    by (intro exI [of _ ?r] exI [of _ ?cs] exI [of _ ?ls] exI [of _ kvs])
       (simp add: toLabels_def)
qed

theorem Download_slices_not_nil_witness:
  "\<exists>r kvs.
     readJSON ''/tmp/pr.json'' dec_PullRequest
       (snd (Download fakeClient test_handler ''/tmp''
               (startWorld (AddPullRequest test_pr NewFakeGitHub) Map.empty))) = Inr r
     \<and> pr_Comments r = Some [] \<and> pr_Labels r = Some []
     \<and> files (snd (Download fakeClient test_handler ''/tmp''
                      (startWorld (AddPullRequest test_pr NewFakeGitHub) Map.empty)))
          ''/tmp/pr.json'' = Some (JObj kvs)
     \<and> map_of kvs ''Comments'' = Some (JArr [])
     \<and> map_of kvs ''Labels'' = Some (JArr [])"
proof -
  let ?w = "startWorld (AddPullRequest test_pr NewFakeGitHub) Map.empty"
  let ?d = "Download fakeClient test_handler ''/tmp'' ?w"
  have "fst ?d = None" by code_simp
  then have dl: "?d = (None, snd ?d)" by (simp add: prod_eq_iff)
  have lk: "fake_pr (provider ?w) (''foo'', ''bar'', word_of_int 1) = Some test_pr"
    by code_simp
  have lc: "fake_comments (provider ?w) (''foo'', ''bar'', word_of_int 1) = None"
    by code_simp
  have g: "PullRequests_Get fakeClient (owner test_handler) (repo test_handler)
             (prNum test_handler) (provider ?w) = (Inr test_pr, provider ?w)"
    using lk by (simp add: fakeClient_def getPullRequest_def test_handler_def)
  have l: "Issues_ListComments fakeClient (owner test_handler) (repo test_handler)
             (prNum test_handler) (provider ?w) = (Inr [], provider ?w)"
    using lc by (simp add: fakeClient_def getComments_def test_handler_def)
  have j3: "Join ''/tmp'' prFile = ''/tmp/pr.json''" by code_simp
  have e: "gpr_Labels test_pr = []" by (simp add: test_pr_def)
  from Download_slices_not_nil [OF dl g l] obtain r cs ls kvs where
    "readJSON (Join ''/tmp'' prFile) dec_PullRequest (snd ?d) = Inr r"
    "pr_Comments r = Some cs" "length cs = length ([] :: IssueComment list)"
    "pr_Labels r = Some ls" "length ls = length (gpr_Labels test_pr)"
    "files (snd ?d) (Join ''/tmp'' prFile) = Some (JObj kvs)"
    "map_of kvs ''Comments'' = Some (JArr (map enc_Comment cs))"
    "map_of kvs ''Labels'' = Some (JArr (map enc_Label ls))"
    by blast
  then show ?thesis using e j3 by (intro exI [of _ r] exI [of _ kvs]) simp
qed

section \<open>Upload: failures\<close>

text \<open>
  Claim C9. A run of \<open>Upload\<close> only appends to the trace, so no call is undone; every
  call but the last succeeded, and if the last one failed its error is the result of
  \<open>Upload\<close>: no call follows a failed one. In particular, when the replacement of the
  labels fails, the run has no call on a comment.
\<close>

theorem Upload_stops_at_first_failure:
  assumes "Upload cl seed h path w = (res, w')"
  shows "trace w' = trace w @ added w w'
       \<and> stopsAtFailure (added w w') res
       \<and> (\<forall>x \<in> set (added w w'). isReplaceLabels (fst x) \<and> snd x \<noteq> None \<longrightarrow>
            res = snd x \<and> \<not> list_ex isCommentCall (calls w w'))"
proof (cases "readJSON (Join path prFile) dec_PullRequest w")
  case (Inl e)
  then have "w' = w" using assms by (simp add: Upload_def)
  then show ?thesis by (simp add: added_def stopsAtFailure_def)
next
  case (Inr pr)
  note s = Upload_shape [OF Inr assms]
  from s(1) obtain rest where
    r: "calls w w' = ReplaceLabels (owner h) (repo h) (prNum h)
                       (map l_Text (elems (pr_Labels pr))) # rest"
       "list_all (\<lambda>c. \<not> isReplaceLabels c) rest"
       "rest = [] \<or> \<not> isCommentCall (hd rest)"
    by blast
  have st: "stopsAtFailure (added w w') res"
  proof (cases res)
    case None
    then have all: "\<forall>x \<in> set (added w w'). snd x = None"
      using s(3) by (simp add: ranUntil_def list_all_iff)
    have l: "added w w' = [] \<or> snd (last (added w w')) = None"
    proof (cases "added w w' = []")
      case True
      then show ?thesis by simp
    next
      case False
      then have "last (added w w') \<in> set (added w w')" by (rule last_in_set)
      then show ?thesis using all by simp
    qed
    have "\<forall>x \<in> set (butlast (added w w')). snd x = None"
      using all by (auto dest: in_set_butlastD)
    then show ?thesis unfolding stopsAtFailure_def list_all_iff using l by blast
  next
    case (Some e)
    then show ?thesis using s(3) by (simp add: ranUntil_def stopsAtFailure_def)
  qed
  have lab: "res = snd x \<and> \<not> list_ex isCommentCall (calls w w')"
    if x: "x \<in> set (added w w')" "isReplaceLabels (fst x)" "snd x \<noteq> None" for x
  proof -
    have "res \<noteq> None"
    proof
      assume "res = None"
      then have "\<forall>x \<in> set (added w w'). snd x = None"
        using s(3) by (simp add: ranUntil_def list_all_iff)
      then show False using x(1,3) by simp
    qed
    then obtain e where re: "res = Some e" by auto
    have e: "res = Some e" "added w w' \<noteq> []"
        "list_all (\<lambda>x. snd x = None) (butlast (added w w'))" "snd (last (added w w')) = Some e"
      using s(3) re by (simp_all add: ranUntil_def)
    have xl: "x = last (added w w')"
    proof (rule ccontr)
      assume "x \<noteq> last (added w w')"
      moreover have "x \<in> set (butlast (added w w') @ [last (added w w')])"
        using x(1) e(2) by simp
      ultimately have "x \<in> set (butlast (added w w'))" by simp
      then show False using e(3) x(3) by (simp add: list_all_iff)
    qed
    have "rest = []"
    proof (rule ccontr)
      assume ne: "rest \<noteq> []"
      have "fst x = last (calls w w')" using xl e(2) by (simp add: calls_def last_map)
      also have "\<dots> = last rest" using r(1) ne by simp
      finally have "fst x \<in> set rest" using ne by simp
      then show False using r(2) x(2) by (simp add: list_all_iff)
    qed
    then show ?thesis using r(1) xl e by (simp add: isCommentCall_def)
  qed
  show ?thesis using s(2) st lab by blast
qed

theorem Upload_stops_at_first_failure_witness:
  "fst (Upload fakeClient [] test_handler ''/tmp'' (uploadWorld test_server (recordWith [] [])))
     = Some (ProviderError ''404 Not Found'')
   \<and> added (uploadWorld test_server (recordWith [] []))
        (snd (Upload fakeClient [] test_handler ''/tmp'' (uploadWorld test_server (recordWith [] []))))
     = [(ReplaceLabels ''foo'' ''bar'' 1 [], None), (ListComments ''foo'' ''bar'' 1, None),
        (DeleteComment ''foo'' ''bar'' 1, Some (ProviderError ''404 Not Found''))]
   \<and> stopsAtFailure
        (added (uploadWorld test_server (recordWith [] []))
          (snd (Upload fakeClient [] test_handler ''/tmp'' (uploadWorld test_server (recordWith [] [])))))
        (Some (ProviderError ''404 Not Found''))
   \<and> added (uploadWorld NewFakeGitHub tektonPR)
        (snd (Upload fakeClient [] test_handler ''/tmp'' (uploadWorld NewFakeGitHub tektonPR)))
     = [(ReplaceLabels ''foo'' ''bar'' 1 [''tacocat''], Some (ProviderError ''404 Not Found''))]
   \<and> fst (Upload fakeClient [] test_handler ''/tmp'' (uploadWorld NewFakeGitHub tektonPR))
     = Some (ProviderError ''404 Not Found'')
   \<and> \<not> list_ex isCommentCall
        (calls (uploadWorld NewFakeGitHub tektonPR)
          (snd (Upload fakeClient [] test_handler ''/tmp'' (uploadWorld NewFakeGitHub tektonPR))))"
proof -
  let ?w1 = "uploadWorld test_server (recordWith [] [])"
  let ?w2 = "uploadWorld NewFakeGitHub tektonPR"
  let ?u1 = "Upload fakeClient [] test_handler ''/tmp'' ?w1"
  let ?u2 = "Upload fakeClient [] test_handler ''/tmp'' ?w2"
  have up1: "?u1 = (fst ?u1, snd ?u1)" by simp
  have up2: "?u2 = (fst ?u2, snd ?u2)" by simp
  have r1: "fst ?u1 = Some (ProviderError ''404 Not Found'')" by code_simp
  have a1: "added ?w1 (snd ?u1)
     = [(ReplaceLabels ''foo'' ''bar'' 1 [], None), (ListComments ''foo'' ''bar'' 1, None),
        (DeleteComment ''foo'' ''bar'' 1, Some (ProviderError ''404 Not Found''))]"
    by code_simp
  have a2: "added ?w2 (snd ?u2)
     = [(ReplaceLabels ''foo'' ''bar'' 1 [''tacocat''], Some (ProviderError ''404 Not Found''))]"
    by code_simp
  have l: "isReplaceLabels (ReplaceLabels ''foo'' ''bar'' 1 [''tacocat''])"
    by (simp add: isReplaceLabels_def)
  show ?thesis
    using Upload_stops_at_first_failure [OF up1] Upload_stops_at_first_failure [OF up2]
    by (simp add: r1 a1 a2 l)
qed

section \<open>Round trip\<close>



end
